theory Spec2Isabelle
  imports Main "HOL-Library.Word" "HOL-Library.AList" "HOL-Library.Multiset"
begin

section \<open>Values shared by the handlers\<close>

subsection \<open>Go errors\<close>

text \<open>
  A Go \<open>error\<close> value: the sentinel \<open>pgx.ErrNoRows\<close>, an error made from a message, or an
  error that wraps another one (\<open>fmt.Errorf("...: %w", err)\<close>, as mailpit.go builds its
  errors). \<open>Error\<close> is the \<open>err.Error()\<close> text, \<open>errors_Is\<close> walks the chain of wrapped errors
  as \<open>errors.Is\<close> does.
\<close>

datatype error = ErrNoRows | New string | Errorf string error

fun Error :: "error \<Rightarrow> string" where
  "Error ErrNoRows = ''no rows in result set''"
| "Error (New msg) = msg"
| "Error (Errorf msg err) = msg"

fun errors_Is :: "error \<Rightarrow> error \<Rightarrow> bool" where
  "errors_Is ErrNoRows target = (target = ErrNoRows)"
| "errors_Is (New msg) target = (target = New msg)"
| "errors_Is (Errorf msg err) target = (if target = Errorf msg err then True else errors_Is err target)"

subsection \<open>Identifiers and times\<close>

text \<open>\<open>uuid.UUID\<close> is \<open>[16]byte\<close>: 128 bits.\<close>

type_synonym UUID = "128 word"

text \<open>
  A \<open>time.Time\<close> as the storage gateway hands it over: a wall-clock reading in UTC with no
  monotonic part, so that Go's \<open>==\<close> on two such values (the comparison a map keyed by
  \<open>time.Time\<close> uses) is equality of the fields below.
\<close>

record Time =
  Time_Year :: int
  Time_Month :: nat
  Time_Day :: nat
  Time_Hour :: nat
  Time_Minute :: nat
  Time_Second :: nat
  Time_Nanosecond :: nat

text \<open>The calendar date of a time: what \<open>t.Date()\<close> returns.\<close>

definition Time_Date :: "Time \<Rightarrow> int \<times> nat \<times> nat" where
  "Time_Date t = (Time_Year t, Time_Month t, Time_Day t)"

datatype InfinityModifier = Finite | Infinity | NegativeInfinity

text \<open>\<open>pgtype.Timestamp\<close>.\<close>

record Timestamp =
  Timestamp_Time :: Time
  Timestamp_InfinityModifier :: InfinityModifier
  Timestamp_Valid :: bool

subsection \<open>Rows and parameters of the storage gateway (package pgstore)\<close>

text \<open>
  Modelled from the spec: the generated row and parameter types of package pgstore are not
  under src/. The fields are the ones the handlers read and write, completed from the data
  model of the spec (section 3): a trip has an owner name and email, a participant an
  optional name, and every participant, activity and link its owning trip.
\<close>

record Trip =
  Trip_ID :: UUID
  Trip_Destination :: string
  Trip_OwnerEmail :: string
  Trip_OwnerName :: string
  Trip_IsConfirmed :: bool
  Trip_StartsAt :: Timestamp
  Trip_EndsAt :: Timestamp

record Participant =
  Participant_ID :: UUID
  Participant_TripID :: UUID
  Participant_Email :: string
  Participant_IsConfirmed :: bool
  Participant_Name :: "string option"

record Activity =
  Activity_ID :: UUID
  Activity_TripID :: UUID
  Activity_Title :: string
  Activity_OccursAt :: Timestamp

record Link =
  Link_ID :: UUID
  Link_TripID :: UUID
  Link_Title :: string
  Link_Url :: string

record UpdateTripParams =
  UpdateTripParams_Destination :: string
  UpdateTripParams_EndsAt :: Timestamp
  UpdateTripParams_StartsAt :: Timestamp
  UpdateTripParams_IsConfirmed :: bool
  UpdateTripParams_ID :: UUID

record CreateActivityParams =
  CreateActivityParams_TripID :: UUID
  CreateActivityParams_Title :: string
  CreateActivityParams_OccursAt :: Timestamp

record InviteParticipantsToTripParams =
  InviteParticipantsToTripParams_TripID :: UUID
  InviteParticipantsToTripParams_Email :: string

record CreateTripLinkParams =
  CreateTripLinkParams_TripID :: UUID
  CreateTripLinkParams_Title :: string
  CreateTripLinkParams_Url :: string

subsection \<open>Request and response bodies (package spec)\<close>

text \<open>
  Modelled from the spec: the generated request and response types of package spec are not
  under src/. The fields are the ones the handlers read and fill; the fields of
  \<open>CreateTripRequest\<close>, which the handler passes on whole, follow section 4.1 of the spec
  (destination, start and end timestamps, owner name and email, initial participant emails).
\<close>

record CreateTripRequest =
  CreateTripRequest_Destination :: string
  CreateTripRequest_EmailsToInvite :: "string list"
  CreateTripRequest_EndsAt :: Time
  CreateTripRequest_OwnerEmail :: string
  CreateTripRequest_OwnerName :: string
  CreateTripRequest_StartsAt :: Time

record UpdateTripRequest =
  UpdateTripRequest_Destination :: string
  UpdateTripRequest_EndsAt :: Time
  UpdateTripRequest_StartsAt :: Time

record CreateActivityRequest =
  CreateActivityRequest_OccursAt :: Time
  CreateActivityRequest_Title :: string

record InviteParticipantRequest =
  InviteParticipantRequest_Email :: string

record CreateLinkRequest =
  CreateLinkRequest_Title :: string
  CreateLinkRequest_URL :: string

record Error_body =
  Error_Message :: string

record CreateTripResponse =
  CreateTripResponse_TripID :: string

record GetTripDetailsResponseTripObj =
  GetTripDetailsResponseTripObj_Destination :: string
  GetTripDetailsResponseTripObj_EndsAt :: Time
  GetTripDetailsResponseTripObj_ID :: string
  GetTripDetailsResponseTripObj_IsConfirmed :: bool
  GetTripDetailsResponseTripObj_StartsAt :: Time

record GetTripDetailsResponse =
  GetTripDetailsResponse_Trip :: GetTripDetailsResponseTripObj

record GetTripActivitiesResponseInnerArray =
  GetTripActivitiesResponseInnerArray_ID :: string
  GetTripActivitiesResponseInnerArray_OccursAt :: Time
  GetTripActivitiesResponseInnerArray_Title :: string

record GetTripActivitiesResponseOuterArray =
  GetTripActivitiesResponseOuterArray_Activities :: "GetTripActivitiesResponseInnerArray list"
  GetTripActivitiesResponseOuterArray_Date :: Time

record GetTripActivitiesResponse =
  GetTripActivitiesResponse_Activities :: "GetTripActivitiesResponseOuterArray list"

record CreateActivityResponse =
  CreateActivityResponse_ActivityID :: string

record GetLinksResponseArray =
  GetLinksResponseArray_ID :: string
  GetLinksResponseArray_Title :: string
  GetLinksResponseArray_URL :: string

record GetLinksResponse =
  GetLinksResponse_Links :: "GetLinksResponseArray list"

record CreateLinkResponse =
  CreateLinkResponse_LinkID :: string

record GetTripParticipantsResponseArray =
  GetTripParticipantsResponseArray_Email :: string
  GetTripParticipantsResponseArray_ID :: string
  GetTripParticipantsResponseArray_IsConfirmed :: bool
  GetTripParticipantsResponseArray_Name :: "string option"

record GetTripParticipantsResponse =
  GetTripParticipantsResponse_Participants :: "GetTripParticipantsResponseArray list"

text \<open>
  The \<open>interface{}\<close> body of a \<open>spec.Response\<close>: one constructor per type the handlers put
  there, \<open>Body_nil\<close> for \<open>nil\<close> and \<open>Body_string\<close> for a plain string.
\<close>

datatype body =
    Body_nil
  | Body_string string
  | Body_Error Error_body
  | Body_CreateTripResponse CreateTripResponse
  | Body_GetTripDetailsResponse GetTripDetailsResponse
  | Body_GetTripActivitiesResponse GetTripActivitiesResponse
  | Body_CreateActivityResponse CreateActivityResponse
  | Body_GetLinksResponse GetLinksResponse
  | Body_CreateLinkResponse CreateLinkResponse
  | Body_GetTripParticipantsResponse GetTripParticipantsResponse

record Response =
  Response_body :: body
  Response_Code :: int
  Response_contentType :: string

text \<open>
  Modelled from the spec: the generated response constructors of package spec are not under
  src/. Each \<open>...JSON<nnn>Response\<close> wraps its body with the status code of its name, the
  statuses of the table in section 6 of the spec.
\<close>

definition JSONResponse :: "int \<Rightarrow> body \<Rightarrow> Response" where
  "JSONResponse code b =
     \<lparr>Response_body = b, Response_Code = code, Response_contentType = ''application/json''\<rparr>"

definition PatchParticipantsParticipantIDConfirmJSON400Response :: "Error_body \<Rightarrow> Response" where
  "PatchParticipantsParticipantIDConfirmJSON400Response b = JSONResponse 400 (Body_Error b)"

definition PatchParticipantsParticipantIDConfirmJSON204Response :: "body \<Rightarrow> Response" where
  "PatchParticipantsParticipantIDConfirmJSON204Response b = JSONResponse 204 b"

definition PostTripsJSON400Response :: "Error_body \<Rightarrow> Response" where
  "PostTripsJSON400Response b = JSONResponse 400 (Body_Error b)"

definition PostTripsJSON201Response :: "CreateTripResponse \<Rightarrow> Response" where
  "PostTripsJSON201Response b = JSONResponse 201 (Body_CreateTripResponse b)"

definition GetTripsTripIDJSON400Response :: "Error_body \<Rightarrow> Response" where
  "GetTripsTripIDJSON400Response b = JSONResponse 400 (Body_Error b)"

definition GetTripsTripIDJSON200Response :: "GetTripDetailsResponse \<Rightarrow> Response" where
  "GetTripsTripIDJSON200Response b = JSONResponse 200 (Body_GetTripDetailsResponse b)"

definition PutTripsTripIDJSON400Response :: "Error_body \<Rightarrow> Response" where
  "PutTripsTripIDJSON400Response b = JSONResponse 400 (Body_Error b)"

definition GetTripsTripIDActivitiesJSON400Response :: "Error_body \<Rightarrow> Response" where
  "GetTripsTripIDActivitiesJSON400Response b = JSONResponse 400 (Body_Error b)"

definition GetTripsTripIDActivitiesJSON200Response :: "GetTripActivitiesResponse \<Rightarrow> Response" where
  "GetTripsTripIDActivitiesJSON200Response b = JSONResponse 200 (Body_GetTripActivitiesResponse b)"

definition PostTripsTripIDActivitiesJSON400Response :: "Error_body \<Rightarrow> Response" where
  "PostTripsTripIDActivitiesJSON400Response b = JSONResponse 400 (Body_Error b)"

definition PostTripsTripIDActivitiesJSON201Response :: "CreateActivityResponse \<Rightarrow> Response" where
  "PostTripsTripIDActivitiesJSON201Response b = JSONResponse 201 (Body_CreateActivityResponse b)"

definition GetTripsTripIDConfirmJSON400Response :: "Error_body \<Rightarrow> Response" where
  "GetTripsTripIDConfirmJSON400Response b = JSONResponse 400 (Body_Error b)"

definition GetTripsTripIDConfirmJSON204Response :: "body \<Rightarrow> Response" where
  "GetTripsTripIDConfirmJSON204Response b = JSONResponse 204 b"

definition PostTripsTripIDInvitesJSON400Response :: "Error_body \<Rightarrow> Response" where
  "PostTripsTripIDInvitesJSON400Response b = JSONResponse 400 (Body_Error b)"

definition PostTripsTripIDInvitesJSON201Response :: "body \<Rightarrow> Response" where
  "PostTripsTripIDInvitesJSON201Response b = JSONResponse 201 b"

definition GetTripsTripIDLinksJSON400Response :: "Error_body \<Rightarrow> Response" where
  "GetTripsTripIDLinksJSON400Response b = JSONResponse 400 (Body_Error b)"

definition GetTripsTripIDLinksJSON200Response :: "GetLinksResponse \<Rightarrow> Response" where
  "GetTripsTripIDLinksJSON200Response b = JSONResponse 200 (Body_GetLinksResponse b)"

definition PostTripsTripIDLinksJSON400Response :: "Error_body \<Rightarrow> Response" where
  "PostTripsTripIDLinksJSON400Response b = JSONResponse 400 (Body_Error b)"

definition PostTripsTripIDLinksJSON201Response :: "CreateLinkResponse \<Rightarrow> Response" where
  "PostTripsTripIDLinksJSON201Response b = JSONResponse 201 (Body_CreateLinkResponse b)"

definition GetTripsTripIDParticipantsJSON400Response :: "Error_body \<Rightarrow> Response" where
  "GetTripsTripIDParticipantsJSON400Response b = JSONResponse 400 (Body_Error b)"

definition GetTripsTripIDParticipantsJSON200Response :: "GetTripParticipantsResponse \<Rightarrow> Response" where
  "GetTripsTripIDParticipantsJSON200Response b = JSONResponse 200 (Body_GetTripParticipantsResponse b)"

section \<open>The collaborators of the handlers\<close>

subsection \<open>External packages and the runtime\<close>

text \<open>
  \<open>uuid.Parse\<close> and \<open>UUID.String\<close> of github.com/google/uuid are parameters of the model.
  \<open>uuid.Parse\<close> returns a value and an error, and the value is there also when the error is
  not \<open>nil\<close>. An identifier is malformed when \<open>uuid.Parse\<close> returns an error for it.
  \<open>range_choices\<close> fixes the order in which the runtime ranges over a map, which Go leaves
  unspecified.
\<close>

record env =
  uuid_Parse :: "string \<Rightarrow> UUID \<times> error option"
  uuid_String :: "UUID \<Rightarrow> string"
  range_choices :: "nat list"

text \<open>
  A request whose body the handler decodes into a struct of type \<open>'b\<close>: the body is given by
  what \<open>json.NewDecoder(r.Body).Decode(&body)\<close> makes of it, the value left in \<open>body\<close> and the
  error returned.
\<close>

record 'b Request =
  Decode :: "'b \<times> error option"

text \<open>
  Ranging over a map whose entries are \<open>xs\<close>: every entry once, in an order that the
  choices determine (each choice picks one of the entries not yet visited).
\<close>

fun range_map :: "nat list \<Rightarrow> 'a list \<Rightarrow> 'a list" where
  "range_map [] xs = xs"
| "range_map (c # cs) xs =
     (if xs = [] then []
      else (let i = c mod length xs in xs ! i # range_map cs (take i xs @ drop (Suc i) xs)))"

subsection \<open>The interfaces \<open>store\<close> and \<open>mailer\<close>, and the \<open>API\<close> struct\<close>

text \<open>
  The interface \<open>store\<close>: one field per method, over any type \<open>'s\<close> of storage states. A method
  that reads returns its result; a method that writes returns its result and the new state.
  The context argument, and the pool handle of \<open>CreateTrip\<close>, carry no data.
\<close>

record 's store =
  CreateTrip :: "'s \<Rightarrow> CreateTripRequest \<Rightarrow> (error + UUID) \<times> 's"
  GetParticipant :: "'s \<Rightarrow> UUID \<Rightarrow> error + Participant"
  ConfirmParticipant :: "'s \<Rightarrow> UUID \<Rightarrow> error option \<times> 's"
  GetTrip :: "'s \<Rightarrow> UUID \<Rightarrow> error + Trip"
  UpdateTrip :: "'s \<Rightarrow> UpdateTripParams \<Rightarrow> error option \<times> 's"
  GetTripActivities :: "'s \<Rightarrow> UUID \<Rightarrow> error + Activity list"
  CreateActivity :: "'s \<Rightarrow> CreateActivityParams \<Rightarrow> (error + UUID) \<times> 's"
  InviteParticipantToATrip :: "'s \<Rightarrow> InviteParticipantsToTripParams \<Rightarrow> error option \<times> 's"
  GetParticipants :: "'s \<Rightarrow> UUID \<Rightarrow> error + Participant list"
  GetTripLinks :: "'s \<Rightarrow> UUID \<Rightarrow> error + Link list"
  CreateTripLink :: "'s \<Rightarrow> CreateTripLinkParams \<Rightarrow> (error + UUID) \<times> 's"

record 's mailer =
  SendConfirmTripEmailToTripOwner :: "'s \<Rightarrow> UUID \<Rightarrow> error option"

text \<open>\<open>validator.Struct\<close>, at each of the body types the handlers validate.\<close>

record Validate =
  Struct_CreateTripRequest :: "CreateTripRequest \<Rightarrow> error option"
  Struct_UpdateTripRequest :: "UpdateTripRequest \<Rightarrow> error option"
  Struct_CreateActivityRequest :: "CreateActivityRequest \<Rightarrow> error option"
  Struct_CreateLinkRequest :: "CreateLinkRequest \<Rightarrow> error option"

record 's API =
  API_store :: "'s store"
  API_validator :: Validate
  API_mailer :: "'s mailer"

subsection \<open>What a handler can change\<close>

datatype store_call =
    Call_CreateTrip CreateTripRequest
  | Call_GetParticipant UUID
  | Call_ConfirmParticipant UUID
  | Call_GetTrip UUID
  | Call_UpdateTrip UpdateTripParams
  | Call_GetTripActivities UUID
  | Call_CreateActivity CreateActivityParams
  | Call_InviteParticipantToATrip InviteParticipantsToTripParams
  | Call_GetParticipants UUID
  | Call_GetTripLinks UUID
  | Call_CreateTripLink CreateTripLinkParams

record log_entry =
  log_msg :: string
  log_err :: error
  log_fields :: "(string \<times> string) list"

text \<open>
  The world a handler runs in: the state of the storage, the calls made on the storage
  gateway so far (in order), the entries written to the logger, and the goroutines started
  and not yet run (each the trip identifier its closure holds).
\<close>

record 's world =
  db :: 's
  calls :: "store_call list"
  logged :: "log_entry list"
  goroutines :: "UUID list"

definition logger_Error :: "string \<Rightarrow> error \<Rightarrow> (string \<times> string) list \<Rightarrow> 's world \<Rightarrow> 's world" where
  "logger_Error msg err kvs w =
     w\<lparr>logged := logged w @ [\<lparr>log_msg = msg, log_err = err, log_fields = kvs\<rparr>]\<rparr>"

text \<open>The calls \<open>api.store.M(...)\<close>: the method runs on the storage and the call is recorded.\<close>

definition store_CreateTrip :: "'s API \<Rightarrow> CreateTripRequest \<Rightarrow> 's world \<Rightarrow> (error + UUID) \<times> 's world" where
  "store_CreateTrip api body w =
     (case CreateTrip (API_store api) (db w) body of
        (res, s) \<Rightarrow> (res, w\<lparr>db := s, calls := calls w @ [Call_CreateTrip body]\<rparr>))"

definition store_GetParticipant :: "'s API \<Rightarrow> UUID \<Rightarrow> 's world \<Rightarrow> (error + Participant) \<times> 's world" where
  "store_GetParticipant api id' w =
     (GetParticipant (API_store api) (db w) id', w\<lparr>calls := calls w @ [Call_GetParticipant id']\<rparr>)"

definition store_ConfirmParticipant :: "'s API \<Rightarrow> UUID \<Rightarrow> 's world \<Rightarrow> error option \<times> 's world" where
  "store_ConfirmParticipant api id' w =
     (case ConfirmParticipant (API_store api) (db w) id' of
        (res, s) \<Rightarrow> (res, w\<lparr>db := s, calls := calls w @ [Call_ConfirmParticipant id']\<rparr>))"

definition store_GetTrip :: "'s API \<Rightarrow> UUID \<Rightarrow> 's world \<Rightarrow> (error + Trip) \<times> 's world" where
  "store_GetTrip api id' w =
     (GetTrip (API_store api) (db w) id', w\<lparr>calls := calls w @ [Call_GetTrip id']\<rparr>)"

definition store_UpdateTrip :: "'s API \<Rightarrow> UpdateTripParams \<Rightarrow> 's world \<Rightarrow> error option \<times> 's world" where
  "store_UpdateTrip api arg w =
     (case UpdateTrip (API_store api) (db w) arg of
        (res, s) \<Rightarrow> (res, w\<lparr>db := s, calls := calls w @ [Call_UpdateTrip arg]\<rparr>))"

definition store_GetTripActivities :: "'s API \<Rightarrow> UUID \<Rightarrow> 's world \<Rightarrow> (error + Activity list) \<times> 's world" where
  "store_GetTripActivities api id' w =
     (GetTripActivities (API_store api) (db w) id', w\<lparr>calls := calls w @ [Call_GetTripActivities id']\<rparr>)"

definition store_CreateActivity :: "'s API \<Rightarrow> CreateActivityParams \<Rightarrow> 's world \<Rightarrow> (error + UUID) \<times> 's world" where
  "store_CreateActivity api arg w =
     (case CreateActivity (API_store api) (db w) arg of
        (res, s) \<Rightarrow> (res, w\<lparr>db := s, calls := calls w @ [Call_CreateActivity arg]\<rparr>))"

definition store_InviteParticipantToATrip ::
  "'s API \<Rightarrow> InviteParticipantsToTripParams \<Rightarrow> 's world \<Rightarrow> error option \<times> 's world" where
  "store_InviteParticipantToATrip api arg w =
     (case InviteParticipantToATrip (API_store api) (db w) arg of
        (res, s) \<Rightarrow> (res, w\<lparr>db := s, calls := calls w @ [Call_InviteParticipantToATrip arg]\<rparr>))"

definition store_GetParticipants :: "'s API \<Rightarrow> UUID \<Rightarrow> 's world \<Rightarrow> (error + Participant list) \<times> 's world" where
  "store_GetParticipants api id' w =
     (GetParticipants (API_store api) (db w) id', w\<lparr>calls := calls w @ [Call_GetParticipants id']\<rparr>)"

definition store_GetTripLinks :: "'s API \<Rightarrow> UUID \<Rightarrow> 's world \<Rightarrow> (error + Link list) \<times> 's world" where
  "store_GetTripLinks api id' w =
     (GetTripLinks (API_store api) (db w) id', w\<lparr>calls := calls w @ [Call_GetTripLinks id']\<rparr>)"

definition store_CreateTripLink :: "'s API \<Rightarrow> CreateTripLinkParams \<Rightarrow> 's world \<Rightarrow> (error + UUID) \<times> 's world" where
  "store_CreateTripLink api arg w =
     (case CreateTripLink (API_store api) (db w) arg of
        (res, s) \<Rightarrow> (res, w\<lparr>db := s, calls := calls w @ [Call_CreateTripLink arg]\<rparr>))"

section \<open>The handlers\<close>

text \<open>
  Each handler takes the environment, the \<open>API\<close> value, the request or its path parameter,
  and the world; it returns the \<open>*spec.Response\<close> (\<open>None\<close> for \<open>nil\<close>) and the world it leaves.
  The branches are those of the source, in its order; the messages are the source's byte
  strings (UTF-8).
\<close>

subsection \<open>PATCH /participants/{participantId}/confirm\<close>

definition PatchParticipantsParticipantIDConfirm ::
  "env \<Rightarrow> 's API \<Rightarrow> string \<Rightarrow> 's world \<Rightarrow> Response option \<times> 's world" where
  "PatchParticipantsParticipantIDConfirm x api participantID w =
     (case uuid_Parse x participantID of
        (id', Some err) \<Rightarrow>
          (Some (PatchParticipantsParticipantIDConfirmJSON400Response
                   \<lparr>Error_Message = ''uuid invalido''\<rparr>), w)
      | (id', None) \<Rightarrow>
          (case store_GetParticipant api id' w of
             (Inl err, w1) \<Rightarrow>
               if errors_Is err ErrNoRows
               then (Some (PatchParticipantsParticipantIDConfirmJSON400Response
                       \<lparr>Error_Message = ''participant n'' @ [CHR 0xC3, CHR 0xA3] @ ''o encontrado''\<rparr>), w1)
               else (Some (PatchParticipantsParticipantIDConfirmJSON400Response
                       \<lparr>Error_Message = ''something went wrong, try again''\<rparr>),
                     logger_Error ''failed to get participant'' err
                       [(''participant_id'', participantID)] w1)
           | (Inr participant, w1) \<Rightarrow>
               if Participant_IsConfirmed participant
               then (Some (PatchParticipantsParticipantIDConfirmJSON400Response
                       \<lparr>Error_Message = ''participant j'' @ [CHR 0xC3, CHR 0xA1] @ '' confirmado''\<rparr>), w1)
               else
                 (case store_ConfirmParticipant api id' w1 of
                    (Some err, w2) \<Rightarrow>
                      (Some (PatchParticipantsParticipantIDConfirmJSON400Response
                         \<lparr>Error_Message = ''something went wrong, try again''\<rparr>),
                       logger_Error ''failed to confirm participant'' err
                         [(''participant_id'', participantID)] w2)
                  | (None, w2) \<Rightarrow>
                      (Some (PatchParticipantsParticipantIDConfirmJSON204Response Body_nil), w2))))"

subsection \<open>POST /trips\<close>

text \<open>
  The statement \<open>go func() {...}()\<close> starts a goroutine and goes on: the handler records the
  goroutine, with the trip identifier its closure holds, and returns. \<open>PostTrips_func1\<close> is the
  body of that goroutine; \<open>run_goroutine\<close> is the scheduler running the oldest one.
\<close>

definition PostTrips :: "env \<Rightarrow> 's API \<Rightarrow> CreateTripRequest Request \<Rightarrow> 's world \<Rightarrow> Response option \<times> 's world" where
  "PostTrips x api r w =
     (case Decode r of
        (body, Some err) \<Rightarrow>
          (Some (PostTripsJSON400Response \<lparr>Error_Message = ''Invalid JSON: '' @ Error err\<rparr>), w)
      | (body, None) \<Rightarrow>
          (case Struct_CreateTripRequest (API_validator api) body of
             Some err \<Rightarrow>
               (Some (PostTripsJSON400Response \<lparr>Error_Message = ''invalid input: '' @ Error err\<rparr>), w)
           | None \<Rightarrow>
               (case store_CreateTrip api body w of
                  (Inl err, w1) \<Rightarrow>
                    (Some (PostTripsJSON400Response
                       \<lparr>Error_Message = ''failed to create trip, try again''\<rparr>), w1)
                | (Inr tripID, w1) \<Rightarrow>
                    (Some (PostTripsJSON201Response
                       \<lparr>CreateTripResponse_TripID = uuid_String x tripID\<rparr>),
                     w1\<lparr>goroutines := goroutines w1 @ [tripID]\<rparr>))))"

definition PostTrips_func1 :: "env \<Rightarrow> 's API \<Rightarrow> UUID \<Rightarrow> 's world \<Rightarrow> 's world" where
  "PostTrips_func1 x api tripID w =
     (case SendConfirmTripEmailToTripOwner (API_mailer api) (db w) tripID of
        Some err \<Rightarrow>
          logger_Error ''failed to send email on PostTrips: %w'' err
            [(''trip_id'', uuid_String x tripID)] w
      | None \<Rightarrow> w)"

definition run_goroutine :: "env \<Rightarrow> 's API \<Rightarrow> 's world \<Rightarrow> 's world" where
  "run_goroutine x api w =
     (case goroutines w of
        [] \<Rightarrow> w
      | tripID # rest \<Rightarrow> PostTrips_func1 x api tripID (w\<lparr>goroutines := rest\<rparr>))"

subsection \<open>GET /trips/{tripId}\<close>

definition GetTripsTripID :: "env \<Rightarrow> 's API \<Rightarrow> string \<Rightarrow> 's world \<Rightarrow> Response option \<times> 's world" where
  "GetTripsTripID x api tripID w =
     (case uuid_Parse x tripID of
        (id', Some err) \<Rightarrow>
          (Some (GetTripsTripIDJSON400Response \<lparr>Error_Message = ''uuid invalido''\<rparr>), w)
      | (id', None) \<Rightarrow>
          (case store_GetTrip api id' w of
             (Inl err, w1) \<Rightarrow>
               (Some (GetTripsTripIDJSON400Response
                  \<lparr>Error_Message = ''This trip dont exists, try again''\<rparr>), w1)
           | (Inr trip, w1) \<Rightarrow>
               (Some (GetTripsTripIDJSON200Response
                  \<lparr>GetTripDetailsResponse_Trip =
                     \<lparr>GetTripDetailsResponseTripObj_Destination = Trip_Destination trip,
                      GetTripDetailsResponseTripObj_EndsAt = Timestamp_Time (Trip_EndsAt trip),
                      GetTripDetailsResponseTripObj_ID = uuid_String x (Trip_ID trip),
                      GetTripDetailsResponseTripObj_IsConfirmed = Trip_IsConfirmed trip,
                      GetTripDetailsResponseTripObj_StartsAt = Timestamp_Time (Trip_StartsAt trip)\<rparr>\<rparr>),
                w1)))"

subsection \<open>PUT /trips/{tripId}\<close>

definition PutTripsTripID ::
  "env \<Rightarrow> 's API \<Rightarrow> UpdateTripRequest Request \<Rightarrow> string \<Rightarrow> 's world \<Rightarrow> Response option \<times> 's world" where
  "PutTripsTripID x api r tripID w =
     (case uuid_Parse x tripID of
        (id', Some err) \<Rightarrow>
          (Some (PutTripsTripIDJSON400Response \<lparr>Error_Message = ''uuid invalido''\<rparr>), w)
      | (id', None) \<Rightarrow>
          (case Decode r of
             (body, Some err) \<Rightarrow>
               (Some (PutTripsTripIDJSON400Response
                  \<lparr>Error_Message = ''Invalid JSON: '' @ Error err\<rparr>), w)
           | (body, None) \<Rightarrow>
               (case Struct_UpdateTripRequest (API_validator api) body of
                  Some err \<Rightarrow>
                    (Some (PutTripsTripIDJSON400Response
                       \<lparr>Error_Message = ''invalid input: '' @ Error err\<rparr>), w)
                | None \<Rightarrow>
                    (case store_GetTrip api id' w of
                       (Inl err, w1) \<Rightarrow>
                         (Some (PutTripsTripIDJSON400Response
                            \<lparr>Error_Message = ''Trip not found to update: '' @ Error err\<rparr>), w1)
                     | (Inr trip, w1) \<Rightarrow>
                         (case store_UpdateTrip api
                                 \<lparr>UpdateTripParams_Destination = UpdateTripRequest_Destination body,
                                  UpdateTripParams_EndsAt =
                                    \<lparr>Timestamp_Time = UpdateTripRequest_EndsAt body,
                                     Timestamp_InfinityModifier = Finite,
                                     Timestamp_Valid = True\<rparr>,
                                  UpdateTripParams_StartsAt =
                                    \<lparr>Timestamp_Time = UpdateTripRequest_StartsAt body,
                                     Timestamp_InfinityModifier = Finite,
                                     Timestamp_Valid = True\<rparr>,
                                  UpdateTripParams_IsConfirmed = Trip_IsConfirmed trip,
                                  UpdateTripParams_ID = Trip_ID trip\<rparr> w1 of
                            (Some err, w2) \<Rightarrow>
                              (Some (PutTripsTripIDJSON400Response
                                 \<lparr>Error_Message = ''Trip update failed''\<rparr>), w2)
                          | (None, w2) \<Rightarrow> (None, w2))))))"

subsection \<open>GET /trips/{tripId}/activities\<close>

text \<open>
  The map \<open>groupedActivities\<close> is an association list with one entry per key, in the order
  in which the keys were first assigned. \<open>groupedActivities[date] = append(groupedActivities[date], v)\<close>
  reads the slice under the key (\<open>nil\<close> when the key is absent), appends, and assigns.
\<close>

definition append_at ::
  "Time \<Rightarrow> 'a \<Rightarrow> (Time \<times> 'a list) list \<Rightarrow> (Time \<times> 'a list) list" where
  "append_at date v m =
     AList.update date ((case map_of m date of None \<Rightarrow> [] | Some vs \<Rightarrow> vs) @ [v]) m"

text \<open>The first loop of the handler, over the slice of activities.\<close>

fun groupActivities ::
  "env \<Rightarrow> Activity list \<Rightarrow> (Time \<times> GetTripActivitiesResponseInnerArray list) list
     \<Rightarrow> (Time \<times> GetTripActivitiesResponseInnerArray list) list" where
  "groupActivities x [] groupedActivities = groupedActivities"
| "groupActivities x (activity # activities) groupedActivities =
     (let date = Timestamp_Time (Activity_OccursAt activity)
      in groupActivities x activities
           (append_at date
              \<lparr>GetTripActivitiesResponseInnerArray_ID = uuid_String x (Activity_ID activity),
               GetTripActivitiesResponseInnerArray_OccursAt = Timestamp_Time (Activity_OccursAt activity),
               GetTripActivitiesResponseInnerArray_Title = Activity_Title activity\<rparr>
              groupedActivities))"

text \<open>The second loop: ranging over the map, one outer element per entry.\<close>

definition groupedKeys ::
  "env \<Rightarrow> (Time \<times> GetTripActivitiesResponseInnerArray list) list
     \<Rightarrow> GetTripActivitiesResponseOuterArray list" where
  "groupedKeys x groupedActivities =
     map (\<lambda>(date, activities2).
            \<lparr>GetTripActivitiesResponseOuterArray_Activities = activities2,
             GetTripActivitiesResponseOuterArray_Date = date\<rparr>)
         (range_map (range_choices x) groupedActivities)"

definition GetTripsTripIDActivities :: "env \<Rightarrow> 's API \<Rightarrow> string \<Rightarrow> 's world \<Rightarrow> Response option \<times> 's world" where
  "GetTripsTripIDActivities x api tripID w =
     (case uuid_Parse x tripID of
        (id', Some err) \<Rightarrow>
          (Some (GetTripsTripIDActivitiesJSON400Response \<lparr>Error_Message = ''uuid invalido''\<rparr>), w)
      | (id', None) \<Rightarrow>
          (case store_GetTripActivities api id' w of
             (Inl err, w1) \<Rightarrow>
               (Some (GetTripsTripIDActivitiesJSON400Response
                  \<lparr>Error_Message = ''Activities for this trip not found: '' @ Error err\<rparr>), w1)
           | (Inr activities, w1) \<Rightarrow>
               (Some (GetTripsTripIDActivitiesJSON200Response
                  \<lparr>GetTripActivitiesResponse_Activities =
                     groupedKeys x (groupActivities x activities [])\<rparr>), w1)))"

subsection \<open>POST /trips/{tripId}/activities\<close>

definition PostTripsTripIDActivities ::
  "env \<Rightarrow> 's API \<Rightarrow> CreateActivityRequest Request \<Rightarrow> string \<Rightarrow> 's world \<Rightarrow> Response option \<times> 's world" where
  "PostTripsTripIDActivities x api r tripID w =
     (case Decode r of
        (body, Some err) \<Rightarrow>
          (Some (PostTripsTripIDActivitiesJSON400Response
             \<lparr>Error_Message = ''Invalid JSON: '' @ Error err\<rparr>), w)
      | (body, None) \<Rightarrow>
          (case uuid_Parse x tripID of
             (id', Some err) \<Rightarrow>
               (Some (PostTripsTripIDActivitiesJSON400Response
                  \<lparr>Error_Message = ''Invalid Id: '' @ Error err\<rparr>), w)
           | (id', None) \<Rightarrow>
               (case store_GetTrip api id' w of
                  (Inl err, w1) \<Rightarrow>
                    (Some (PostTripsTripIDActivitiesJSON400Response
                       \<lparr>Error_Message = ''Somethind went wrong with this trip''\<rparr>), w1)
                | (Inr trip, w1) \<Rightarrow>
                    (case Struct_CreateActivityRequest (API_validator api) body of
                       Some err \<Rightarrow>
                         (Some (PostTripsTripIDActivitiesJSON400Response
                            \<lparr>Error_Message = ''invalid input: '' @ Error err\<rparr>), w1)
                     | None \<Rightarrow>
                         (case store_CreateActivity api
                                 \<lparr>CreateActivityParams_TripID = id',
                                  CreateActivityParams_Title = CreateActivityRequest_Title body,
                                  CreateActivityParams_OccursAt =
                                    \<lparr>Timestamp_Time = CreateActivityRequest_OccursAt body,
                                     Timestamp_InfinityModifier = Finite,
                                     Timestamp_Valid = True\<rparr>\<rparr> w1 of
                            (Inl err, w2) \<Rightarrow>
                              (Some (PostTripsTripIDActivitiesJSON400Response
                                 \<lparr>Error_Message = ''Something went wrong: '' @ Error err\<rparr>), w2)
                          | (Inr activityId, w2) \<Rightarrow>
                              (Some (PostTripsTripIDActivitiesJSON201Response
                                 \<lparr>CreateActivityResponse_ActivityID = uuid_String x activityId\<rparr>),
                               w2))))))"

subsection \<open>GET /trips/{tripId}/confirm\<close>

definition GetTripsTripIDConfirm :: "env \<Rightarrow> 's API \<Rightarrow> string \<Rightarrow> 's world \<Rightarrow> Response option \<times> 's world" where
  "GetTripsTripIDConfirm x api tripID w =
     (case uuid_Parse x tripID of
        (id', Some err) \<Rightarrow>
          (Some (GetTripsTripIDConfirmJSON400Response \<lparr>Error_Message = ''uuid invalido''\<rparr>), w)
      | (id', None) \<Rightarrow>
          (case store_GetTrip api id' w of
             (Inl err, w1) \<Rightarrow>
               (Some (GetTripsTripIDConfirmJSON400Response
                  \<lparr>Error_Message = ''Trip to update not found: '' @ Error err\<rparr>), w1)
           | (Inr trip, w1) \<Rightarrow>
               (case store_UpdateTrip api
                       \<lparr>UpdateTripParams_Destination = Trip_Destination trip,
                        UpdateTripParams_EndsAt =
                          \<lparr>Timestamp_Time = Timestamp_Time (Trip_EndsAt trip),
                           Timestamp_InfinityModifier = Finite,
                           Timestamp_Valid = True\<rparr>,
                        UpdateTripParams_StartsAt =
                          \<lparr>Timestamp_Time = Timestamp_Time (Trip_StartsAt trip),
                           Timestamp_InfinityModifier = Finite,
                           Timestamp_Valid = True\<rparr>,
                        UpdateTripParams_IsConfirmed = True,
                        UpdateTripParams_ID = Trip_ID trip\<rparr> w1 of
                  (Some err, w2) \<Rightarrow>
                    (Some (GetTripsTripIDConfirmJSON400Response
                       \<lparr>Error_Message = ''Error when confirm a trip: '' @ Error err\<rparr>), w2)
                | (None, w2) \<Rightarrow>
                    (Some (GetTripsTripIDConfirmJSON204Response (Body_string [])), w2))))"

subsection \<open>POST /trips/{tripId}/invites\<close>

definition PostTripsTripIDInvites ::
  "env \<Rightarrow> 's API \<Rightarrow> InviteParticipantRequest Request \<Rightarrow> string \<Rightarrow> 's world \<Rightarrow> Response option \<times> 's world" where
  "PostTripsTripIDInvites x api r tripID w =
     (case Decode r of
        (body, Some err) \<Rightarrow>
          (Some (PostTripsTripIDInvitesJSON400Response
             \<lparr>Error_Message = ''Invalid JSON: '' @ Error err\<rparr>), w)
      | (body, None) \<Rightarrow>
          (case uuid_Parse x tripID of
             (id', Some err) \<Rightarrow>
               (Some (PostTripsTripIDInvitesJSON400Response
                  \<lparr>Error_Message = ''Invalid Id: '' @ Error err\<rparr>), w)
           | (id', None) \<Rightarrow>
               (case store_InviteParticipantToATrip api
                       \<lparr>InviteParticipantsToTripParams_TripID = id',
                        InviteParticipantsToTripParams_Email = InviteParticipantRequest_Email body\<rparr> w of
                  (Some err, w1) \<Rightarrow>
                    (Some (PostTripsTripIDInvitesJSON400Response
                       \<lparr>Error_Message = ''Failed to invite participant to a trip'' @ Error err\<rparr>), w1)
                | (None, w1) \<Rightarrow>
                    (Some (PostTripsTripIDInvitesJSON201Response Body_nil), w1))))"

subsection \<open>GET /trips/{tripId}/links\<close>

definition GetTripsTripIDLinks :: "env \<Rightarrow> 's API \<Rightarrow> string \<Rightarrow> 's world \<Rightarrow> Response option \<times> 's world" where
  "GetTripsTripIDLinks x api tripID w =
     (case uuid_Parse x tripID of
        (id', Some err) \<Rightarrow>
          (Some (GetTripsTripIDLinksJSON400Response
             \<lparr>Error_Message = ''Invalid Trip UUID: '' @ Error err\<rparr>), w)
      | (id', None) \<Rightarrow>
          (case store_GetTripLinks api id' w of
             (Inl err, w1) \<Rightarrow>
               (Some (GetTripsTripIDLinksJSON400Response
                  \<lparr>Error_Message = ''Failed to get Trip links: '' @ Error err\<rparr>), w1)
           | (Inr links, w1) \<Rightarrow>
               (Some (GetTripsTripIDLinksJSON200Response
                  \<lparr>GetLinksResponse_Links =
                     map (\<lambda>link.
                            \<lparr>GetLinksResponseArray_ID = uuid_String x (Link_ID link),
                             GetLinksResponseArray_Title = Link_Title link,
                             GetLinksResponseArray_URL = Link_Url link\<rparr>) links\<rparr>), w1)))"

subsection \<open>POST /trips/{tripId}/links\<close>

text \<open>
  In the source the first two \<open>if err != nil\<close> blocks of this handler build a 400 response
  and do not return it: the value is dropped (\<open>dropped1\<close>, \<open>dropped2\<close>) and control goes on
  with the body as the decoder left it and the identifier as \<open>uuid.Parse\<close> returned it.
\<close>

definition PostTripsTripIDLinks ::
  "env \<Rightarrow> 's API \<Rightarrow> CreateLinkRequest Request \<Rightarrow> string \<Rightarrow> 's world \<Rightarrow> Response option \<times> 's world" where
  "PostTripsTripIDLinks x api r tripID w =
     (case Decode r of
        (body, decode_err) \<Rightarrow>
          (let dropped1 =
                 (case decode_err of
                    Some err \<Rightarrow> Some (PostTripsTripIDLinksJSON400Response
                                  \<lparr>Error_Message = ''Invalid JSON: '' @ Error err\<rparr>)
                  | None \<Rightarrow> None)
           in (case uuid_Parse x tripID of
                 (id', parse_err) \<Rightarrow>
                   (let dropped2 =
                          (case parse_err of
                             Some err \<Rightarrow> Some (PostTripsTripIDLinksJSON400Response
                                           \<lparr>Error_Message = ''Invalid Id: '' @ Error err\<rparr>)
                           | None \<Rightarrow> None)
                    in (case Struct_CreateLinkRequest (API_validator api) body of
                          Some err \<Rightarrow>
                            (Some (PostTripsTripIDLinksJSON400Response
                               \<lparr>Error_Message = ''invalid input: '' @ Error err\<rparr>), w)
                        | None \<Rightarrow>
                            (case store_CreateTripLink api
                                    \<lparr>CreateTripLinkParams_TripID = id',
                                     CreateTripLinkParams_Title = CreateLinkRequest_Title body,
                                     CreateTripLinkParams_Url = CreateLinkRequest_URL body\<rparr> w of
                               (Inl err, w1) \<Rightarrow>
                                 (Some (PostTripsTripIDLinksJSON400Response
                                    \<lparr>Error_Message = ''Failed to create link: '' @ Error err\<rparr>), w1)
                             | (Inr linkId, w1) \<Rightarrow>
                                 (Some (PostTripsTripIDLinksJSON201Response
                                    \<lparr>CreateLinkResponse_LinkID = uuid_String x linkId\<rparr>), w1)))))))"

subsection \<open>GET /trips/{tripId}/participants\<close>

definition GetTripsTripIDParticipants :: "env \<Rightarrow> 's API \<Rightarrow> string \<Rightarrow> 's world \<Rightarrow> Response option \<times> 's world" where
  "GetTripsTripIDParticipants x api tripID w =
     (case uuid_Parse x tripID of
        (id', Some err) \<Rightarrow>
          (Some (GetTripsTripIDParticipantsJSON400Response
             \<lparr>Error_Message = ''Trip id invalid: '' @ Error err\<rparr>), w)
      | (id', None) \<Rightarrow>
          (case store_GetParticipants api id' w of
             (Inl err, w1) \<Rightarrow>
               (Some (GetTripsTripIDParticipantsJSON400Response
                  \<lparr>Error_Message = ''Error to get the trip participants: '' @ Error err\<rparr>), w1)
           | (Inr participants, w1) \<Rightarrow>
               (Some (GetTripsTripIDParticipantsJSON200Response
                  \<lparr>GetTripParticipantsResponse_Participants =
                     map (\<lambda>participant.
                            \<lparr>GetTripParticipantsResponseArray_Email = Participant_Email participant,
                             GetTripParticipantsResponseArray_ID = uuid_String x (Participant_ID participant),
                             GetTripParticipantsResponseArray_IsConfirmed = Participant_IsConfirmed participant,
                             GetTripParticipantsResponseArray_Name = None\<rparr>) participants\<rparr>), w1)))"

section \<open>The mailer \<open>MailPit\<close> (mailpit.go)\<close>

text \<open>
  The package github.com/wneessen/go-mail, as far as \<open>MailPit\<close> uses it, is a parameter:
  setting the sender and the recipient of a message (each validates the address), making a
  client, and dialling and sending a message.
\<close>

record Msg =
  Msg_From :: string
  Msg_To :: string
  Msg_Subject :: string
  Msg_Body :: string

record mail =
  mail_From :: "string \<Rightarrow> error option"
  mail_To :: "string \<Rightarrow> error option"
  mail_NewClient :: "error option"
  mail_DialAndSend :: "Msg \<Rightarrow> error option"

text \<open>Decimal digits, and a number padded with zeros to a width, as \<open>time.Format\<close> writes them.\<close>

function decimal :: "nat \<Rightarrow> string" where
  "decimal n =
     (if n < 10 then [char_of (48 + n)] else decimal (n div 10) @ [char_of (48 + n mod 10)])"
  by pat_completeness auto
termination
  by (relation "measure (\<lambda>n. n)") auto

definition padded :: "nat \<Rightarrow> nat \<Rightarrow> string" where
  "padded width n = replicate (width - length (decimal n)) (CHR ''0'') @ decimal n"

text \<open>\<open>t.Format(time.DateOnly)\<close>: the layout \<open>2006-01-02\<close>.\<close>

definition Format_DateOnly :: "Time \<Rightarrow> string" where
  "Format_DateOnly t =
     (if Time_Year t < 0 then ''-'' @ padded 4 (nat (- Time_Year t)) else padded 4 (nat (Time_Year t)))
     @ ''-'' @ padded 2 (Time_Month t) @ ''-'' @ padded 2 (Time_Day t)"

text \<open>
  \<open>MailPit.SendConfirmTripEmailToTripOwner\<close>, over the storage state it reads the trip from
  and the mail package. Every failure is wrapped with the step that failed and returned.
\<close>

definition MailPit_SendConfirmTripEmailToTripOwner ::
  "mail \<Rightarrow> 's store \<Rightarrow> 's \<Rightarrow> UUID \<Rightarrow> error option" where
  "MailPit_SendConfirmTripEmailToTripOwner pkg mp_store s tripID =
     (case GetTrip mp_store s tripID of
        Inl err \<Rightarrow>
          Some (Errorf (''mailpit falid to get trip for SendConfirmTripEmailToTripOwner: ''
                        @ Error err) err)
      | Inr trip \<Rightarrow>
          (case mail_From pkg ''mailpit@journey.com'' of
             Some err \<Rightarrow>
               Some (Errorf (''mailpit falid to set From in email for SendConfirmTripEmailToTripOwner: ''
                             @ Error err) err)
           | None \<Rightarrow>
               (case mail_To pkg (Trip_OwnerEmail trip) of
                  Some err \<Rightarrow>
                    Some (Errorf (''mailpit falid to set To in email for SendConfirmTripEmailToTripOwner: ''
                                  @ Error err) err)
                | None \<Rightarrow>
                    (case mail_NewClient pkg of
                       Some err \<Rightarrow>
                         Some (Errorf (''mailpit falid to create email client in email for SendConfirmTripEmailToTripOwner: ''
                                       @ Error err) err)
                     | None \<Rightarrow>
                         (case mail_DialAndSend pkg
                                 \<lparr>Msg_From = ''mailpit@journey.com'',
                                  Msg_To = Trip_OwnerEmail trip,
                                  Msg_Subject = ''Confirme sua viagem!!!'',
                                  Msg_Body =
                                    [CHR 0x0A, CHR 0x09, CHR 0x09] @ ''Ol'' @ [CHR 0xC3, CHR 0xA1]
                                    @ '', '' @ Trip_OwnerName trip
                                    @ [CHR 0x0A, CHR 0x0A, CHR 0x09, CHR 0x09]
                                    @ ''A sua viagem para '' @ Trip_Destination trip
                                    @ '' que come'' @ [CHR 0xC3, CHR 0xA7] @ ''a no dia ''
                                    @ Format_DateOnly (Timestamp_Time (Trip_StartsAt trip))
                                    @ '' precisa ser confirmada.''
                                    @ [CHR 0x0A, CHR 0x09, CHR 0x09]
                                    @ ''Clique no bot'' @ [CHR 0xC3, CHR 0xA3]
                                    @ ''o abaixo para confirmar.''
                                    @ [CHR 0x0A, CHR 0x09, CHR 0x09]\<rparr> of
                            Some err \<Rightarrow>
                              Some (Errorf (''mailpit falid to send email for SendConfirmTripEmailToTripOwner: ''
                                            @ Error err) err)
                          | None \<Rightarrow> None)))))"

definition MailPit :: "mail \<Rightarrow> 's store \<Rightarrow> 's mailer" where
  "MailPit pkg mp_store =
     \<lparr>SendConfirmTripEmailToTripOwner = MailPit_SendConfirmTripEmailToTripOwner pkg mp_store\<rparr>"

section \<open>An in-memory storage gateway, and stand-ins for the external packages\<close>

text \<open>
  The theorems below hold for every implementation of \<open>store\<close>, \<open>mailer\<close>, the validator and
  the UUID package. To run the handlers on concrete requests, this section gives one
  implementation of each.
\<close>

subsection \<open>The storage gateway\<close>

text \<open>
  Modelled from the spec: the storage gateway (package pgstore, generated queries over the
  relational schema) is not under src/. Following sections 2 and 3 of the spec it provides
  typed CRUD operations over four tables; identifiers are generated at creation; a new
  trip and a new participant are unconfirmed; an update rewrites destination, dates and
  confirmation flag of the trip with the given identifier; confirming a participant sets
  its flag; every participant, activity and link references an existing trip, which the
  storage enforces; a single row that does not exist is reported as \<open>ErrNoRows\<close>.
\<close>

record mem =
  mem_trips :: "Trip list"
  mem_participants :: "Participant list"
  mem_activities :: "Activity list"
  mem_links :: "Link list"
  mem_next :: UUID

definition mem_trip_exists :: "mem \<Rightarrow> UUID \<Rightarrow> bool" where
  "mem_trip_exists m id' = (find (\<lambda>t. Trip_ID t = id') (mem_trips m) \<noteq> None)"

definition fk_violation :: error where
  "fk_violation = New ''insert or update on table violates foreign key constraint''"

fun new_participants :: "UUID \<Rightarrow> UUID \<Rightarrow> string list \<Rightarrow> Participant list" where
  "new_participants tripID next [] = []"
| "new_participants tripID next (email # emails) =
     \<lparr>Participant_ID = next, Participant_TripID = tripID, Participant_Email = email,
      Participant_IsConfirmed = False, Participant_Name = None\<rparr>
     # new_participants tripID (next + 1) emails"

definition mem_CreateTrip :: "mem \<Rightarrow> CreateTripRequest \<Rightarrow> (error + UUID) \<times> mem" where
  "mem_CreateTrip m body =
     (let tripID = mem_next m;
          invited = new_participants tripID (tripID + 1) (CreateTripRequest_EmailsToInvite body)
      in (Inr tripID,
          m\<lparr>mem_trips := mem_trips m @
                [\<lparr>Trip_ID = tripID,
                  Trip_Destination = CreateTripRequest_Destination body,
                  Trip_OwnerEmail = CreateTripRequest_OwnerEmail body,
                  Trip_OwnerName = CreateTripRequest_OwnerName body,
                  Trip_IsConfirmed = False,
                  Trip_StartsAt = \<lparr>Timestamp_Time = CreateTripRequest_StartsAt body,
                                   Timestamp_InfinityModifier = Finite, Timestamp_Valid = True\<rparr>,
                  Trip_EndsAt = \<lparr>Timestamp_Time = CreateTripRequest_EndsAt body,
                                 Timestamp_InfinityModifier = Finite, Timestamp_Valid = True\<rparr>\<rparr>],
            mem_participants := mem_participants m @ invited,
            mem_next := tripID + 1 + of_nat (length invited)\<rparr>))"

definition mem_GetParticipant :: "mem \<Rightarrow> UUID \<Rightarrow> error + Participant" where
  "mem_GetParticipant m id' =
     (case find (\<lambda>p. Participant_ID p = id') (mem_participants m) of
        None \<Rightarrow> Inl ErrNoRows
      | Some p \<Rightarrow> Inr p)"

definition mem_ConfirmParticipant :: "mem \<Rightarrow> UUID \<Rightarrow> error option \<times> mem" where
  "mem_ConfirmParticipant m id' =
     (None,
      m\<lparr>mem_participants :=
          map (\<lambda>p. if Participant_ID p = id' then p\<lparr>Participant_IsConfirmed := True\<rparr> else p)
            (mem_participants m)\<rparr>)"

definition mem_GetTrip :: "mem \<Rightarrow> UUID \<Rightarrow> error + Trip" where
  "mem_GetTrip m id' =
     (case find (\<lambda>t. Trip_ID t = id') (mem_trips m) of
        None \<Rightarrow> Inl ErrNoRows
      | Some t \<Rightarrow> Inr t)"

definition mem_UpdateTrip :: "mem \<Rightarrow> UpdateTripParams \<Rightarrow> error option \<times> mem" where
  "mem_UpdateTrip m arg =
     (None,
      m\<lparr>mem_trips :=
          map (\<lambda>t. if Trip_ID t = UpdateTripParams_ID arg
                    then t\<lparr>Trip_Destination := UpdateTripParams_Destination arg,
                           Trip_EndsAt := UpdateTripParams_EndsAt arg,
                           Trip_StartsAt := UpdateTripParams_StartsAt arg,
                           Trip_IsConfirmed := UpdateTripParams_IsConfirmed arg\<rparr>
                    else t)
            (mem_trips m)\<rparr>)"

definition mem_GetTripActivities :: "mem \<Rightarrow> UUID \<Rightarrow> error + Activity list" where
  "mem_GetTripActivities m id' = Inr (filter (\<lambda>a. Activity_TripID a = id') (mem_activities m))"

definition mem_CreateActivity :: "mem \<Rightarrow> CreateActivityParams \<Rightarrow> (error + UUID) \<times> mem" where
  "mem_CreateActivity m arg =
     (if mem_trip_exists m (CreateActivityParams_TripID arg)
      then (Inr (mem_next m),
            m\<lparr>mem_activities := mem_activities m @
                  [\<lparr>Activity_ID = mem_next m,
                    Activity_TripID = CreateActivityParams_TripID arg,
                    Activity_Title = CreateActivityParams_Title arg,
                    Activity_OccursAt = CreateActivityParams_OccursAt arg\<rparr>],
              mem_next := mem_next m + 1\<rparr>)
      else (Inl fk_violation, m))"

definition mem_InviteParticipantToATrip ::
  "mem \<Rightarrow> InviteParticipantsToTripParams \<Rightarrow> error option \<times> mem" where
  "mem_InviteParticipantToATrip m arg =
     (if mem_trip_exists m (InviteParticipantsToTripParams_TripID arg)
      then (None,
            m\<lparr>mem_participants := mem_participants m @
                  new_participants (InviteParticipantsToTripParams_TripID arg) (mem_next m)
                    [InviteParticipantsToTripParams_Email arg],
              mem_next := mem_next m + 1\<rparr>)
      else (Some fk_violation, m))"

definition mem_GetParticipants :: "mem \<Rightarrow> UUID \<Rightarrow> error + Participant list" where
  "mem_GetParticipants m id' =
     Inr (filter (\<lambda>p. Participant_TripID p = id') (mem_participants m))"

definition mem_GetTripLinks :: "mem \<Rightarrow> UUID \<Rightarrow> error + Link list" where
  "mem_GetTripLinks m id' = Inr (filter (\<lambda>l. Link_TripID l = id') (mem_links m))"

definition mem_CreateTripLink :: "mem \<Rightarrow> CreateTripLinkParams \<Rightarrow> (error + UUID) \<times> mem" where
  "mem_CreateTripLink m arg =
     (if mem_trip_exists m (CreateTripLinkParams_TripID arg)
      then (Inr (mem_next m),
            m\<lparr>mem_links := mem_links m @
                  [\<lparr>Link_ID = mem_next m,
                    Link_TripID = CreateTripLinkParams_TripID arg,
                    Link_Title = CreateTripLinkParams_Title arg,
                    Link_Url = CreateTripLinkParams_Url arg\<rparr>],
              mem_next := mem_next m + 1\<rparr>)
      else (Inl fk_violation, m))"

definition mem_store :: "mem store" where
  "mem_store =
     \<lparr>CreateTrip = mem_CreateTrip,
      GetParticipant = mem_GetParticipant,
      ConfirmParticipant = mem_ConfirmParticipant,
      GetTrip = mem_GetTrip,
      UpdateTrip = mem_UpdateTrip,
      GetTripActivities = mem_GetTripActivities,
      CreateActivity = mem_CreateActivity,
      InviteParticipantToATrip = mem_InviteParticipantToATrip,
      GetParticipants = mem_GetParticipants,
      GetTripLinks = mem_GetTripLinks,
      CreateTripLink = mem_CreateTripLink\<rparr>"

subsection \<open>The UUID package, the validator and the mailer\<close>

text \<open>
  A stand-in for github.com/google/uuid that knows the canonical form only: 36 characters,
  hyphens at positions 8, 13, 18 and 23, hexadecimal digits elsewhere. On any other string
  it returns the zero UUID and an error, as \<open>uuid.Parse\<close> does for a string of a length it
  does not know.
\<close>

definition xvalue :: "char \<Rightarrow> nat option" where
  "xvalue c =
     (let n = (of_char c :: nat)
      in if 48 \<le> n \<and> n \<le> 57 then Some (n - 48)
         else if 97 \<le> n \<and> n \<le> 102 then Some (n - 87)
         else if 65 \<le> n \<and> n \<le> 70 then Some (n - 55)
         else None)"

fun hex_value :: "nat \<Rightarrow> string \<Rightarrow> nat option" where
  "hex_value acc [] = Some acc"
| "hex_value acc (c # cs) =
     (case xvalue c of None \<Rightarrow> None | Some d \<Rightarrow> hex_value (16 * acc + d) cs)"

definition canonical_Parse :: "string \<Rightarrow> UUID \<times> error option" where
  "canonical_Parse s =
     (if length s = 36
      then (let digits = filter (\<lambda>c. c \<noteq> CHR ''-'') s
            in if s ! 8 = CHR ''-'' \<and> s ! 13 = CHR ''-'' \<and> s ! 18 = CHR ''-'' \<and> s ! 23 = CHR ''-''
                  \<and> length digits = 32
               then (case hex_value 0 digits of
                       Some n \<Rightarrow> (of_nat n, None)
                     | None \<Rightarrow> (0, Some (New ''invalid UUID format'')))
               else (0, Some (New ''invalid UUID format'')))
      else (0, Some (New (''invalid UUID length: '' @ decimal (length s)))))"

definition hex_digit :: "nat \<Rightarrow> char" where
  "hex_digit d = ''0123456789abcdef'' ! d"

text \<open>
  The digits of \<open>n\<close> written into a pattern, last character first: a hyphen stays, every
  other character takes the next hexadecimal digit of \<open>n\<close>.
\<close>

fun format_rev :: "string \<Rightarrow> nat \<Rightarrow> string" where
  "format_rev [] n = []"
| "format_rev (c # cs) n =
     (if c = CHR ''-'' then CHR ''-'' # format_rev cs n
      else hex_digit (n mod 16) # format_rev cs (n div 16))"

definition canonical_String :: "UUID \<Rightarrow> string" where
  "canonical_String u =
     rev (format_rev (rev ''xxxxxxxx-xxxx-xxxx-xxxx-xxxxxxxxxxxx'') (unat u))"

definition canonical_env :: env where
  "canonical_env =
     \<lparr>uuid_Parse = canonical_Parse, uuid_String = canonical_String, range_choices = []\<rparr>"

text \<open>A validator that requires every text field to be non-empty.\<close>

definition required :: "string list \<Rightarrow> error option" where
  "required vs = (if [] \<in> set vs then Some (New ''failed on the required tag'') else None)"

definition required_validator :: Validate where
  "required_validator =
     \<lparr>Struct_CreateTripRequest =
        (\<lambda>b. required [CreateTripRequest_Destination b, CreateTripRequest_OwnerEmail b,
                        CreateTripRequest_OwnerName b]),
      Struct_UpdateTripRequest = (\<lambda>b. required [UpdateTripRequest_Destination b]),
      Struct_CreateActivityRequest = (\<lambda>b. required [CreateActivityRequest_Title b]),
      Struct_CreateLinkRequest =
        (\<lambda>b. required [CreateLinkRequest_Title b, CreateLinkRequest_URL b])\<rparr>"

text \<open>
  The mail package with a submission endpoint that accepts every message, and with one that
  refuses the connection; \<open>MailPit\<close> over each, reading trips from the in-memory storage.
\<close>

definition smtp_up :: mail where
  "smtp_up =
     \<lparr>mail_From = (\<lambda>addr. None), mail_To = (\<lambda>addr. None), mail_NewClient = None,
      mail_DialAndSend = (\<lambda>msg. None)\<rparr>"

definition smtp_down :: mail where
  "smtp_down =
     smtp_up\<lparr>mail_DialAndSend :=
       (\<lambda>msg. Some (New ''dial tcp 127.0.0.1:1025: connect: connection refused''))\<rparr>"

definition silent_mailer :: "mem mailer" where
  "silent_mailer = MailPit smtp_up mem_store"

definition failing_mailer :: "mem mailer" where
  "failing_mailer = MailPit smtp_down mem_store"

definition mem_API :: "mem API" where
  "mem_API =
     \<lparr>API_store = mem_store, API_validator = required_validator, API_mailer = failing_mailer\<rparr>"

definition world0 :: "mem \<Rightarrow> mem world" where
  "world0 m = \<lparr>db = m, calls = [], logged = [], goroutines = []\<rparr>"

subsection \<open>Example data\<close>

text \<open>\<open>time.Date(year, month, day, hour, min, 0, 0, time.UTC)\<close>.\<close>

definition Date :: "int \<Rightarrow> nat \<Rightarrow> nat \<Rightarrow> nat \<Rightarrow> nat \<Rightarrow> Time" where
  "Date y mo d h mi =
     \<lparr>Time_Year = y, Time_Month = mo, Time_Day = d, Time_Hour = h, Time_Minute = mi,
      Time_Second = 0, Time_Nanosecond = 0\<rparr>"

definition timestamp :: "Time \<Rightarrow> Timestamp" where
  "timestamp t =
     \<lparr>Timestamp_Time = t, Timestamp_InfinityModifier = Finite, Timestamp_Valid = True\<rparr>"

definition lisbon_id :: UUID where
  "lisbon_id = 0x9f1c2d3e4a5b46c78d9e0f1a2b3c4d5e"

definition lisbon :: Trip where
  "lisbon =
     \<lparr>Trip_ID = lisbon_id,
      Trip_Destination = ''Lisbon'',
      Trip_OwnerEmail = ''ana@example.com'',
      Trip_OwnerName = ''Ana'',
      Trip_IsConfirmed = False,
      Trip_StartsAt = timestamp (Date 2024 1 1 0 0),
      Trip_EndsAt = timestamp (Date 2024 1 7 0 0)\<rparr>"

definition guest_id :: UUID where
  "guest_id = 0x2b7e151628aed2a6abf7158809cf4f3c"

definition guest :: Participant where
  "guest =
     \<lparr>Participant_ID = guest_id,
      Participant_TripID = lisbon_id,
      Participant_Email = ''rui@example.com'',
      Participant_IsConfirmed = False,
      Participant_Name = Some ''Rui''\<rparr>"

definition breakfast :: Activity where
  "breakfast =
     \<lparr>Activity_ID = 0xa1, Activity_TripID = lisbon_id, Activity_Title = ''Breakfast'',
      Activity_OccursAt = timestamp (Date 2024 1 1 9 0)\<rparr>"

definition museum :: Activity where
  "museum =
     \<lparr>Activity_ID = 0xa2, Activity_TripID = lisbon_id, Activity_Title = ''Museum'',
      Activity_OccursAt = timestamp (Date 2024 1 1 15 0)\<rparr>"

definition tram :: Activity where
  "tram =
     \<lparr>Activity_ID = 0xa3, Activity_TripID = lisbon_id, Activity_Title = ''Tram 28'',
      Activity_OccursAt = timestamp (Date 2024 1 2 10 0)\<rparr>"

text \<open>One trip with one invited participant and three activities, no link.\<close>

definition example_db :: mem where
  "example_db =
     \<lparr>mem_trips = [lisbon],
      mem_participants = [guest],
      mem_activities = [breakfast, museum, tram],
      mem_links = [],
      mem_next = 0xb0\<rparr>"

text \<open>The same trip before any activity was created.\<close>

definition empty_trip_db :: mem where
  "empty_trip_db = example_db\<lparr>mem_activities := []\<rparr>"

definition lisbon_update :: "UpdateTripRequest Request" where
  "lisbon_update =
     \<lparr>Decode =
        (\<lparr>UpdateTripRequest_Destination = ''Porto'',
          UpdateTripRequest_EndsAt = Date 2024 2 9 0 0,
          UpdateTripRequest_StartsAt = Date 2024 2 2 0 0\<rparr>, None)\<rparr>"

definition dinner_request :: "CreateActivityRequest Request" where
  "dinner_request =
     \<lparr>Decode =
        (\<lparr>CreateActivityRequest_OccursAt = Date 2024 1 3 20 0,
          CreateActivityRequest_Title = ''Dinner''\<rparr>, None)\<rparr>"

definition madrid_request :: "CreateTripRequest Request" where
  "madrid_request =
     \<lparr>Decode =
        (\<lparr>CreateTripRequest_Destination = ''Madrid'',
          CreateTripRequest_EmailsToInvite = [''eva@example.com''],
          CreateTripRequest_EndsAt = Date 2024 3 8 0 0,
          CreateTripRequest_OwnerEmail = ''ana@example.com'',
          CreateTripRequest_OwnerName = ''Ana'',
          CreateTripRequest_StartsAt = Date 2024 3 1 0 0\<rparr>, None)\<rparr>"

definition link_request :: "CreateLinkRequest Request" where
  "link_request =
     \<lparr>Decode =
        (\<lparr>CreateLinkRequest_Title = ''Tickets'',
          CreateLinkRequest_URL = ''https://example.com/tickets''\<rparr>, None)\<rparr>"

text \<open>Further storage states and collaborators used in the examples.\<close>

definition confirmed_db :: mem where
  "confirmed_db = example_db\<lparr>mem_trips := [lisbon\<lparr>Trip_IsConfirmed := True\<rparr>]\<rparr>"

definition guest_confirmed_db :: mem where
  "guest_confirmed_db = example_db\<lparr>mem_participants := [guest\<lparr>Participant_IsConfirmed := True\<rparr>]\<rparr>"

definition broken_store :: "mem store" where
  "broken_store = mem_store\<lparr>CreateTrip := (\<lambda>m body. (Inl (New ''connection refused''), m))\<rparr>"

section \<open>Facts for unfolding and for running the examples\<close>

lemmas response_defs =
  JSONResponse_def
  PatchParticipantsParticipantIDConfirmJSON400Response_def
  PatchParticipantsParticipantIDConfirmJSON204Response_def
  PostTripsJSON400Response_def PostTripsJSON201Response_def
  GetTripsTripIDJSON400Response_def GetTripsTripIDJSON200Response_def
  PutTripsTripIDJSON400Response_def
  GetTripsTripIDActivitiesJSON400Response_def GetTripsTripIDActivitiesJSON200Response_def
  PostTripsTripIDActivitiesJSON400Response_def PostTripsTripIDActivitiesJSON201Response_def
  GetTripsTripIDConfirmJSON400Response_def GetTripsTripIDConfirmJSON204Response_def
  PostTripsTripIDInvitesJSON400Response_def PostTripsTripIDInvitesJSON201Response_def
  GetTripsTripIDLinksJSON400Response_def GetTripsTripIDLinksJSON200Response_def
  PostTripsTripIDLinksJSON400Response_def PostTripsTripIDLinksJSON201Response_def
  GetTripsTripIDParticipantsJSON400Response_def GetTripsTripIDParticipantsJSON200Response_def

lemmas store_call_defs =
  store_CreateTrip_def store_GetParticipant_def store_ConfirmParticipant_def store_GetTrip_def
  store_UpdateTrip_def store_GetTripActivities_def store_CreateActivity_def
  store_InviteParticipantToATrip_def store_GetParticipants_def store_GetTripLinks_def
  store_CreateTripLink_def

lemmas mem_defs =
  mem_store_def mem_API_def world0_def mem_trip_exists_def mem_CreateTrip_def
  mem_GetParticipant_def mem_ConfirmParticipant_def mem_GetTrip_def mem_UpdateTrip_def
  mem_GetTripActivities_def mem_CreateActivity_def mem_InviteParticipantToATrip_def
  mem_GetParticipants_def mem_GetTripLinks_def mem_CreateTripLink_def fk_violation_def
  required_validator_def required_def

lemmas mailer_defs =
  failing_mailer_def silent_mailer_def MailPit_def MailPit_SendConfirmTripEmailToTripOwner_def
  smtp_up_def smtp_down_def

lemmas example_defs =
  example_db_def empty_trip_db_def lisbon_def lisbon_id_def guest_def guest_id_def
  breakfast_def museum_def tram_def Date_def timestamp_def

lemma Parse_lisbon:
  "uuid_Parse canonical_env ''9f1c2d3e-4a5b-46c7-8d9e-0f1a2b3c4d5e'' = (lisbon_id, None)"
  by (simp add: canonical_env_def canonical_Parse_def xvalue_def lisbon_id_def)

lemma Parse_guest:
  "uuid_Parse canonical_env ''2b7e1516-28ae-d2a6-abf7-158809cf4f3c'' = (guest_id, None)"
  by (simp add: canonical_env_def canonical_Parse_def xvalue_def guest_id_def)

lemma Parse_unknown:
  "uuid_Parse canonical_env ''00000000-0000-0000-0000-0000000000ff'' = (0xff, None)"
  by (simp add: canonical_env_def canonical_Parse_def xvalue_def)

lemma Parse_malformed:
  "uuid_Parse canonical_env ''not-a-uuid'' = (0, Some (New ''invalid UUID length: 10''))"
proof -
  have "decimal 10 = ''10''" by code_simp
  then show ?thesis by (simp add: canonical_env_def canonical_Parse_def)
qed

lemma String_lisbon:
  "uuid_String canonical_env lisbon_id = ''9f1c2d3e-4a5b-46c7-8d9e-0f1a2b3c4d5e''"
  by (simp add: canonical_env_def canonical_String_def hex_digit_def lisbon_id_def)

lemma String_guest:
  "uuid_String canonical_env guest_id = ''2b7e1516-28ae-d2a6-abf7-158809cf4f3c''"
  by (simp add: canonical_env_def canonical_String_def hex_digit_def guest_id_def)

lemma String_b0:
  "uuid_String canonical_env 0xb0 = ''00000000-0000-0000-0000-0000000000b0''"
  by (simp add: canonical_env_def canonical_String_def hex_digit_def)

lemma GetTrip_lisbon: "GetTrip (API_store mem_API) example_db lisbon_id = Inr lisbon"
  by (simp add: mem_defs example_defs)

lemma GetTrip_unknown: "GetTrip (API_store mem_API) example_db 0xff = Inl ErrNoRows"
  by (simp add: mem_defs example_defs)

lemma GetParticipant_guest:
  "GetParticipant (API_store mem_API) (db (world0 example_db)) guest_id = Inr guest"
  by (simp add: mem_defs example_db_def guest_def)

lemma ConfirmParticipant_guest:
  "ConfirmParticipant (API_store mem_API) (db (world0 example_db)) guest_id = (None, guest_confirmed_db)"
  by (simp add: mem_defs example_db_def guest_def guest_confirmed_db_def)

lemma GetParticipant_guest_confirmed:
  "GetParticipant (API_store mem_API) guest_confirmed_db guest_id =
     Inr (guest\<lparr>Participant_IsConfirmed := True\<rparr>)"
  by (simp add: mem_defs example_db_def guest_def guest_confirmed_db_def)

lemma GetParticipant_unknown:
  "GetParticipant (API_store mem_API) (db (world0 example_db)) 0xff = Inl ErrNoRows"
  by (simp add: mem_defs example_db_def guest_def guest_id_def)

lemma GetParticipants_lisbon:
  "GetParticipants (API_store mem_API) (db (world0 example_db)) lisbon_id = Inr [guest]"
  by (simp add: mem_defs example_defs)

lemma GetTripActivities_lisbon:
  "GetTripActivities (API_store mem_API) (db (world0 example_db)) lisbon_id =
     Inr [breakfast, museum, tram]"
  by (simp add: mem_defs example_db_def breakfast_def museum_def tram_def)

lemma GetTripActivities_empty_trip:
  "GetTripActivities (API_store mem_API) (db (world0 empty_trip_db)) lisbon_id = Inr []"
  by (simp add: mem_defs example_defs)

section \<open>Ranging over a map visits every entry once\<close>

lemma range_map_Nil: "range_map cs [] = []"
  by (cases cs) simp_all

lemma mset_remove_nth:
  "i < length xs \<Longrightarrow> add_mset (xs ! i) (mset (take i xs @ drop (Suc i) xs)) = mset xs"
  by (metis Cons_nth_drop_Suc append_take_drop_id mset.simps(2) mset_append union_mset_add_mset_right)

lemma mset_range_map: "mset (range_map cs xs) = mset xs"
proof (induction cs arbitrary: xs)
  case Nil
  then show ?case by simp
next
  case (Cons c cs)
  show ?case
  proof (cases "xs = []")
    case True
    then show ?thesis by simp
  next
    case False
    then have "c mod length xs < length xs" by simp
    then have "add_mset (xs ! (c mod length xs))
                 (mset (take (c mod length xs) xs @ drop (Suc (c mod length xs)) xs)) = mset xs"
      by (rule mset_remove_nth)
    then show ?thesis
      using False Cons.IH by (simp add: Let_def)
  qed
qed

lemma length_range_map: "length (range_map cs xs) = length xs"
  using mset_range_map [of cs xs] by (metis size_mset)

lemma set_range_map: "set (range_map cs xs) = set xs"
  using mset_range_map [of cs xs] by (metis set_mset_mset)

section \<open>The in-memory storage returns what was written\<close>

text \<open>
  What the theorems on updating and confirming assume of a storage gateway holds for the
  in-memory storage in every state: a lookup returns the row with the identifier asked for,
  an update is accepted and rewrites the four columns of that row, writing the same values
  again changes nothing, and a confirmed participant is returned as confirmed.
\<close>

lemma find_key: "find (\<lambda>t. key t = k) xs = Some y \<Longrightarrow> key y = k"
  by (induction xs) (auto split: if_splits)

lemma find_map_upd:
  assumes "find (\<lambda>t. key t = k) xs = Some y" and "\<And>t. key (f t) = key t"
  shows "find (\<lambda>t. key t = k) (map (\<lambda>t. if key t = k' then f t else t) xs) =
           Some (if k = k' then f y else y)"
  using assms by (induction xs) (auto split: if_splits)

lemma mem_GetTrip_ID: "mem_GetTrip m id' = Inr trip \<Longrightarrow> Trip_ID trip = id'"
  by (auto simp: mem_GetTrip_def split: option.splits dest: find_key [where key = Trip_ID])

lemma mem_UpdateTrip_accepts: "fst (mem_UpdateTrip m arg) = None"
  by (simp add: mem_UpdateTrip_def)

lemma mem_GetTrip_after_UpdateTrip:
  assumes "mem_GetTrip m id' = Inr trip"
  shows "mem_GetTrip (snd (mem_UpdateTrip m arg)) id' =
           Inr (if id' = UpdateTripParams_ID arg
                then trip\<lparr>Trip_Destination := UpdateTripParams_Destination arg,
                          Trip_EndsAt := UpdateTripParams_EndsAt arg,
                          Trip_StartsAt := UpdateTripParams_StartsAt arg,
                          Trip_IsConfirmed := UpdateTripParams_IsConfirmed arg\<rparr>
                else trip)"
proof -
  from assms have "find (\<lambda>t. Trip_ID t = id') (mem_trips m) = Some trip"
    by (simp add: mem_GetTrip_def split: option.splits)
  from find_map_upd [OF this, where f = "\<lambda>t. t\<lparr>Trip_Destination := UpdateTripParams_Destination arg,
                          Trip_EndsAt := UpdateTripParams_EndsAt arg,
                          Trip_StartsAt := UpdateTripParams_StartsAt arg,
                          Trip_IsConfirmed := UpdateTripParams_IsConfirmed arg\<rparr>"
        and k' = "UpdateTripParams_ID arg"]
  show ?thesis
    by (simp add: mem_GetTrip_def mem_UpdateTrip_def)
qed

lemma mem_UpdateTrip_again:
  "snd (mem_UpdateTrip (snd (mem_UpdateTrip m arg)) arg) = snd (mem_UpdateTrip m arg)"
  by (simp add: mem_UpdateTrip_def comp_def cong: map_cong)

lemma mem_GetParticipant_after_ConfirmParticipant:
  assumes "mem_GetParticipant m id' = Inr p"
  shows "mem_GetParticipant (snd (mem_ConfirmParticipant m id')) id' =
           Inr (p\<lparr>Participant_IsConfirmed := True\<rparr>)"
proof -
  from assms have "find (\<lambda>t. Participant_ID t = id') (mem_participants m) = Some p"
    by (simp add: mem_GetParticipant_def split: option.splits)
  from find_map_upd [OF this, where f = "\<lambda>t. t\<lparr>Participant_IsConfirmed := True\<rparr>" and k' = id']
  show ?thesis
    by (simp add: mem_GetParticipant_def mem_ConfirmParticipant_def)
qed

section \<open>The date in the mail\<close>

lemma Format_DateOnly_example: "Format_DateOnly (Date 2024 1 1 0 0) = ''2024-01-01''"
proof -
  have "decimal 2024 = ''2024''" "decimal 1 = ''1''"
    by code_simp+
  then show ?thesis
    by (simp add: Format_DateOnly_def padded_def Date_def)
qed

section \<open>Malformed identifiers\<close>

text \<open>
  Nine of the ten handlers that take an identifier return a 400 response for a malformed
  one and leave the world as it is: no call reaches the storage gateway.
\<close>

lemma malformed_id_rejected_by_the_other_handlers:
  assumes "uuid_Parse x s = (u, Some err)"
  shows "\<exists>resp. PatchParticipantsParticipantIDConfirm x api s w = (Some resp, w) \<and> Response_Code resp = 400"
    and "\<exists>resp. GetTripsTripID x api s w = (Some resp, w) \<and> Response_Code resp = 400"
    and "\<exists>resp. PutTripsTripID x api r1 s w = (Some resp, w) \<and> Response_Code resp = 400"
    and "\<exists>resp. GetTripsTripIDActivities x api s w = (Some resp, w) \<and> Response_Code resp = 400"
    and "\<exists>resp. PostTripsTripIDActivities x api r2 s w = (Some resp, w) \<and> Response_Code resp = 400"
    and "\<exists>resp. GetTripsTripIDConfirm x api s w = (Some resp, w) \<and> Response_Code resp = 400"
    and "\<exists>resp. PostTripsTripIDInvites x api r3 s w = (Some resp, w) \<and> Response_Code resp = 400"
    and "\<exists>resp. GetTripsTripIDLinks x api s w = (Some resp, w) \<and> Response_Code resp = 400"
    and "\<exists>resp. GetTripsTripIDParticipants x api s w = (Some resp, w) \<and> Response_Code resp = 400"
  using assms
  by (auto simp: PatchParticipantsParticipantIDConfirm_def GetTripsTripID_def PutTripsTripID_def
      GetTripsTripIDActivities_def PostTripsTripIDActivities_def GetTripsTripIDConfirm_def
      PostTripsTripIDInvites_def GetTripsTripIDLinks_def GetTripsTripIDParticipants_def
      response_defs split: prod.splits option.splits)

text \<open>
  \<open>PostTripsTripIDLinks\<close> is the tenth. After a parse error it goes on with the UUID value
  that \<open>uuid.Parse\<close> returned beside its error: when the validator accepts the body, the
  handler calls \<open>CreateTripLink\<close> with that value, and answers 201 when the storage accepts
  the row.
\<close>

lemma PostTripsTripIDLinks_after_a_parse_error:
  assumes "uuid_Parse x s = (u, Some err)"
    and "Struct_CreateLinkRequest (API_validator api) (fst (Decode r)) = None"
    and "CreateTripLink (API_store api) (db w)
           \<lparr>CreateTripLinkParams_TripID = u,
            CreateTripLinkParams_Title = CreateLinkRequest_Title (fst (Decode r)),
            CreateTripLinkParams_Url = CreateLinkRequest_URL (fst (Decode r))\<rparr> = (Inr linkId, s1)"
  shows "PostTripsTripIDLinks x api r s w =
           (Some \<lparr>Response_body = Body_CreateLinkResponse
                    \<lparr>CreateLinkResponse_LinkID = uuid_String x linkId\<rparr>,
                  Response_Code = 201, Response_contentType = ''application/json''\<rparr>,
            w\<lparr>db := s1,
              calls := calls w @
                [Call_CreateTripLink
                   \<lparr>CreateTripLinkParams_TripID = u,
                    CreateTripLinkParams_Title = CreateLinkRequest_Title (fst (Decode r)),
                    CreateTripLinkParams_Url = CreateLinkRequest_URL (fst (Decode r))\<rparr>]\<rparr>)"
  using assms
  by (cases "Decode r")
    (simp add: PostTripsTripIDLinks_def store_CreateTripLink_def response_defs)

text \<open>
  Claim C1 states that every handler answers a malformed identifier with a client error
  and without a call on the storage gateway, and names \<open>PostTripsTripIDLinks\<close> in
  particular. The handler does not do so. For the path parameter \<open>not-a-uuid\<close>, which
  \<open>uuid.Parse\<close> refuses, and a valid body, it calls \<open>CreateTripLink\<close> with the zero UUID as
  the trip; the 400 response it returns on the example storage is the storage's refusal of
  that row (no trip has the zero UUID), not the rejection of the identifier.
\<close>

theorem PostTripsTripIDLinks_malformed_id_reaches_store:
  "uuid_Parse canonical_env ''not-a-uuid'' = (0, Some (New ''invalid UUID length: 10''))
   \<and> PostTripsTripIDLinks canonical_env mem_API link_request ''not-a-uuid'' (world0 example_db) =
       (Some \<lparr>Response_body = Body_Error
                \<lparr>Error_Message = ''Failed to create link: insert or update on table violates foreign key constraint''\<rparr>,
              Response_Code = 400, Response_contentType = ''application/json''\<rparr>,
        (world0 example_db)
          \<lparr>calls := [Call_CreateTripLink
                       \<lparr>CreateTripLinkParams_TripID = 0,
                        CreateTripLinkParams_Title = ''Tickets'',
                        CreateTripLinkParams_Url = ''https://example.com/tickets''\<rparr>]\<rparr>)"
  using Parse_malformed
  by (simp add: PostTripsTripIDLinks_def store_CreateTripLink_def response_defs link_request_def
      mem_defs example_defs)

section \<open>GET /trips/{tripId}/activities: the groups\<close>

lemma GetTripsTripIDActivities_found:
  "uuid_Parse x tripID = (id', None) \<Longrightarrow>
   GetTripActivities (API_store api) (db w) id' = Inr activities \<Longrightarrow>
   GetTripsTripIDActivities x api tripID w =
     (Some \<lparr>Response_body = Body_GetTripActivitiesResponse
              \<lparr>GetTripActivitiesResponse_Activities =
                 groupedKeys x (groupActivities x activities [])\<rparr>,
            Response_Code = 200, Response_contentType = ''application/json''\<rparr>,
      w\<lparr>calls := calls w @ [Call_GetTripActivities id']\<rparr>)"
  by (simp add: GetTripsTripIDActivities_def store_GetTripActivities_def response_defs)

text \<open>
  The key of a group is the whole \<open>occurs-at\<close> time of an activity. The keys of the map are
  the distinct times, and the group under a key holds the activities at exactly that time,
  in the order of retrieval.
\<close>

lemma map_of_append_at:
  "map_of (append_at k v m) =
     (map_of m)(k \<mapsto> (case map_of m k of None \<Rightarrow> [] | Some vs \<Rightarrow> vs) @ [v])"
  by (simp add: append_at_def update_conv')

lemma distinct_append_at: "distinct (map fst m) \<Longrightarrow> distinct (map fst (append_at k v m))"
  by (simp add: append_at_def distinct_update)

lemma distinct_groupActivities:
  "distinct (map fst m) \<Longrightarrow> distinct (map fst (groupActivities x as m))"
  by (induction as arbitrary: m) (simp_all add: Let_def distinct_append_at)

lemma map_of_groupActivities:
  "map_of (groupActivities x as m) t =
     (let new = map (\<lambda>activity.
                      \<lparr>GetTripActivitiesResponseInnerArray_ID = uuid_String x (Activity_ID activity),
                       GetTripActivitiesResponseInnerArray_OccursAt = Timestamp_Time (Activity_OccursAt activity),
                       GetTripActivitiesResponseInnerArray_Title = Activity_Title activity\<rparr>)
                  (filter (\<lambda>activity. Timestamp_Time (Activity_OccursAt activity) = t) as)
      in if new = [] then map_of m t
         else Some ((case map_of m t of None \<Rightarrow> [] | Some vs \<Rightarrow> vs) @ new))"
proof (induction as arbitrary: m)
  case Nil
  then show ?case by simp
next
  case (Cons a as)
  show ?case
    by (cases "Timestamp_Time (Activity_OccursAt a) = t")
      (simp_all add: Cons.IH Let_def map_of_append_at)
qed

lemma groupActivities_group:
  assumes "(t, g) \<in> set (groupActivities x as [])"
  shows "g = map (\<lambda>activity.
                      \<lparr>GetTripActivitiesResponseInnerArray_ID = uuid_String x (Activity_ID activity),
                       GetTripActivitiesResponseInnerArray_OccursAt = Timestamp_Time (Activity_OccursAt activity),
                       GetTripActivitiesResponseInnerArray_Title = Activity_Title activity\<rparr>)
                  (filter (\<lambda>activity. Timestamp_Time (Activity_OccursAt activity) = t) as)"
    and "g \<noteq> []"
proof -
  have "distinct (map fst (groupActivities x as []))"
    by (rule distinct_groupActivities) simp
  with assms have "map_of (groupActivities x as []) t = Some g"
    by simp
  then show "g = map (\<lambda>activity.
                      \<lparr>GetTripActivitiesResponseInnerArray_ID = uuid_String x (Activity_ID activity),
                       GetTripActivitiesResponseInnerArray_OccursAt = Timestamp_Time (Activity_OccursAt activity),
                       GetTripActivitiesResponseInnerArray_Title = Activity_Title activity\<rparr>)
                  (filter (\<lambda>activity. Timestamp_Time (Activity_OccursAt activity) = t) as)"
    and "g \<noteq> []"
    by (auto simp: map_of_groupActivities Let_def split: if_splits)
qed

lemma groupActivities_keys:
  "fst ` set (groupActivities x as []) = (\<lambda>activity. Timestamp_Time (Activity_OccursAt activity)) ` set as"
proof -
  have "t \<in> fst ` set (groupActivities x as []) \<longleftrightarrow>
        t \<in> (\<lambda>activity. Timestamp_Time (Activity_OccursAt activity)) ` set as" for t
  proof -
    have "t \<in> fst ` set (groupActivities x as []) \<longleftrightarrow> map_of (groupActivities x as []) t \<noteq> None"
      by (metis domIff dom_map_of_conv_image_fst)
    also have "\<dots> \<longleftrightarrow> filter (\<lambda>activity. Timestamp_Time (Activity_OccursAt activity) = t) as \<noteq> []"
      by (simp add: map_of_groupActivities Let_def)
    also have "\<dots> \<longleftrightarrow> t \<in> (\<lambda>activity. Timestamp_Time (Activity_OccursAt activity)) ` set as"
      by (auto simp: filter_empty_conv)
    finally show ?thesis .
  qed
  then show ?thesis by blast
qed

lemma GetTripsTripIDActivities_number_of_groups:
  assumes "uuid_Parse x tripID = (id', None)"
    and "GetTripActivities (API_store api) (db w) id' = Inr activities"
  shows "\<exists>groups. fst (GetTripsTripIDActivities x api tripID w) =
            Some \<lparr>Response_body = Body_GetTripActivitiesResponse
                    \<lparr>GetTripActivitiesResponse_Activities = groups\<rparr>,
                  Response_Code = 200, Response_contentType = ''application/json''\<rparr>
          \<and> length groups =
              card ((\<lambda>activity. Timestamp_Time (Activity_OccursAt activity)) ` set activities)"
proof -
  have "distinct (map fst (groupActivities x activities []))"
    by (rule distinct_groupActivities) simp
  then have "length (groupActivities x activities []) =
             card (fst ` set (groupActivities x activities []))"
    by (metis distinct_card length_map set_map)
  then show ?thesis
    using GetTripsTripIDActivities_found [OF assms]
    by (simp add: groupedKeys_def length_range_map groupActivities_keys)
qed

lemma groupActivities_example:
  "groupActivities x [breakfast, museum, tram] [] =
     [(Date 2024 1 1 9 0,
       [\<lparr>GetTripActivitiesResponseInnerArray_ID = uuid_String x 0xa1,
         GetTripActivitiesResponseInnerArray_OccursAt = Date 2024 1 1 9 0,
         GetTripActivitiesResponseInnerArray_Title = ''Breakfast''\<rparr>]),
      (Date 2024 1 1 15 0,
       [\<lparr>GetTripActivitiesResponseInnerArray_ID = uuid_String x 0xa2,
         GetTripActivitiesResponseInnerArray_OccursAt = Date 2024 1 1 15 0,
         GetTripActivitiesResponseInnerArray_Title = ''Museum''\<rparr>]),
      (Date 2024 1 2 10 0,
       [\<lparr>GetTripActivitiesResponseInnerArray_ID = uuid_String x 0xa3,
         GetTripActivitiesResponseInnerArray_OccursAt = Date 2024 1 2 10 0,
         GetTripActivitiesResponseInnerArray_Title = ''Tram 28''\<rparr>])]"
  by (simp add: Let_def append_at_def breakfast_def museum_def tram_def timestamp_def Date_def)

text \<open>
  Claim C2 states that the handler groups the activities by the calendar date of
  \<open>occurs-at\<close>, so that activities at 2024-01-01T09:00, 2024-01-01T15:00 and
  2024-01-02T10:00 come back in exactly two groups, of two and of one. The handler does not
  do so. On a trip with these three activities, of which the first two are on the same
  calendar day, the response has three groups of one activity each, in whatever order the
  runtime ranges over the map.
\<close>

theorem GetTripsTripIDActivities_groups_by_timestamp:
  "Time_Date (Timestamp_Time (Activity_OccursAt breakfast)) = (2024, 1, 1)
   \<and> Time_Date (Timestamp_Time (Activity_OccursAt museum)) = (2024, 1, 1)
   \<and> Time_Date (Timestamp_Time (Activity_OccursAt tram)) = (2024, 1, 2)
   \<and> GetTripActivities (API_store mem_API) (db (world0 example_db)) lisbon_id =
         Inr [breakfast, museum, tram]
   \<and> (\<forall>cs. \<exists>groups.
          fst (GetTripsTripIDActivities (canonical_env\<lparr>range_choices := cs\<rparr>) mem_API
                 ''9f1c2d3e-4a5b-46c7-8d9e-0f1a2b3c4d5e'' (world0 example_db)) =
            Some \<lparr>Response_body = Body_GetTripActivitiesResponse
                    \<lparr>GetTripActivitiesResponse_Activities = groups\<rparr>,
                  Response_Code = 200, Response_contentType = ''application/json''\<rparr>
          \<and> length groups = 3
          \<and> list_all (\<lambda>g. length (GetTripActivitiesResponseOuterArray_Activities g) = 1) groups)"
proof -
  have dates:
    "Time_Date (Timestamp_Time (Activity_OccursAt breakfast)) = (2024, 1, 1)"
    "Time_Date (Timestamp_Time (Activity_OccursAt museum)) = (2024, 1, 1)"
    "Time_Date (Timestamp_Time (Activity_OccursAt tram)) = (2024, 1, 2)"
    by (simp_all add: Time_Date_def breakfast_def museum_def tram_def timestamp_def Date_def)
  have groups: "\<exists>groups.
          fst (GetTripsTripIDActivities (canonical_env\<lparr>range_choices := cs\<rparr>) mem_API
                 ''9f1c2d3e-4a5b-46c7-8d9e-0f1a2b3c4d5e'' (world0 example_db)) =
            Some \<lparr>Response_body = Body_GetTripActivitiesResponse
                    \<lparr>GetTripActivitiesResponse_Activities = groups\<rparr>,
                  Response_Code = 200, Response_contentType = ''application/json''\<rparr>
          \<and> length groups = 3
          \<and> list_all (\<lambda>g. length (GetTripActivitiesResponseOuterArray_Activities g) = 1) groups" for cs
    using GetTripsTripIDActivities_found
            [of "canonical_env\<lparr>range_choices := cs\<rparr>", OF _ GetTripActivities_lisbon]
          Parse_lisbon
    unfolding groupActivities_example
    by (simp add: groupedKeys_def length_range_map list_all_iff set_range_map)
  show ?thesis
    using dates GetTripActivities_lisbon groups by blast
qed

text \<open>
The response on the example, with the entries visited in the order of their first assignment.
\<close>

lemma GetTripsTripIDActivities_example:
  "fst (GetTripsTripIDActivities canonical_env mem_API
          ''9f1c2d3e-4a5b-46c7-8d9e-0f1a2b3c4d5e'' (world0 example_db)) =
     Some \<lparr>Response_body = Body_GetTripActivitiesResponse
             \<lparr>GetTripActivitiesResponse_Activities =
                [\<lparr>GetTripActivitiesResponseOuterArray_Activities =
                    [\<lparr>GetTripActivitiesResponseInnerArray_ID = uuid_String canonical_env 0xa1,
                      GetTripActivitiesResponseInnerArray_OccursAt = Date 2024 1 1 9 0,
                      GetTripActivitiesResponseInnerArray_Title = ''Breakfast''\<rparr>],
                  GetTripActivitiesResponseOuterArray_Date = Date 2024 1 1 9 0\<rparr>,
                 \<lparr>GetTripActivitiesResponseOuterArray_Activities =
                    [\<lparr>GetTripActivitiesResponseInnerArray_ID = uuid_String canonical_env 0xa2,
                      GetTripActivitiesResponseInnerArray_OccursAt = Date 2024 1 1 15 0,
                      GetTripActivitiesResponseInnerArray_Title = ''Museum''\<rparr>],
                  GetTripActivitiesResponseOuterArray_Date = Date 2024 1 1 15 0\<rparr>,
                 \<lparr>GetTripActivitiesResponseOuterArray_Activities =
                    [\<lparr>GetTripActivitiesResponseInnerArray_ID = uuid_String canonical_env 0xa3,
                      GetTripActivitiesResponseInnerArray_OccursAt = Date 2024 1 2 10 0,
                      GetTripActivitiesResponseInnerArray_Title = ''Tram 28''\<rparr>],
                  GetTripActivitiesResponseOuterArray_Date = Date 2024 1 2 10 0\<rparr>]\<rparr>,
           Response_Code = 200, Response_contentType = ''application/json''\<rparr>"
  using GetTripsTripIDActivities_found [OF Parse_lisbon GetTripActivities_lisbon]
  unfolding groupActivities_example
  by (simp add: groupedKeys_def canonical_env_def)

text \<open>
  Claim C10. For a well-formed trip identifier for which the storage gateway returns an
  empty list of activities, \<open>GetTripsTripIDActivities\<close> returns status 200 with an empty
  collection of groups, and the only call on the storage gateway is the lookup.
\<close>

theorem GetTripsTripIDActivities_no_activities:
  "uuid_Parse x tripID = (id', None) \<Longrightarrow>
   GetTripActivities (API_store api) (db w) id' = Inr [] \<Longrightarrow>
   GetTripsTripIDActivities x api tripID w =
     (Some \<lparr>Response_body = Body_GetTripActivitiesResponse
              \<lparr>GetTripActivitiesResponse_Activities = []\<rparr>,
            Response_Code = 200, Response_contentType = ''application/json''\<rparr>,
      w\<lparr>calls := calls w @ [Call_GetTripActivities id']\<rparr>)"
  by (simp add: GetTripsTripIDActivities_def store_GetTripActivities_def groupedKeys_def
      range_map_Nil response_defs)

text \<open>
The trip to Lisbon before any activity was created.
\<close>

theorem GetTripsTripIDActivities_no_activities_witness:
  "uuid_Parse canonical_env ''9f1c2d3e-4a5b-46c7-8d9e-0f1a2b3c4d5e'' = (lisbon_id, None)
   \<and> GetTripActivities (API_store mem_API) (db (world0 empty_trip_db)) lisbon_id = Inr []
   \<and> GetTripsTripIDActivities canonical_env mem_API ''9f1c2d3e-4a5b-46c7-8d9e-0f1a2b3c4d5e''
         (world0 empty_trip_db) =
       (Some \<lparr>Response_body = Body_GetTripActivitiesResponse
                \<lparr>GetTripActivitiesResponse_Activities = []\<rparr>,
              Response_Code = 200, Response_contentType = ''application/json''\<rparr>,
        (world0 empty_trip_db)\<lparr>calls := [Call_GetTripActivities lisbon_id]\<rparr>)"
  using GetTripsTripIDActivities_no_activities [OF Parse_lisbon GetTripActivities_empty_trip]
    Parse_lisbon GetTripActivities_empty_trip
  by (simp add: world0_def)

section \<open>PUT /trips/{tripId}: the confirmation flag is written back\<close>

text \<open>
  When \<open>PutTripsTripID\<close> returns \<open>nil\<close>, the identifier parsed, the body decoded and passed
  validation, the lookup found a trip, and the one write was an \<open>UpdateTrip\<close> that the storage
  accepted, with the flag and the identifier of the trip that was read.
\<close>

lemma PutTripsTripID_success:
  assumes ok: "PutTripsTripID x api r tripID w = (None, w')"
  shows "\<exists>trip.
     snd (uuid_Parse x tripID) = None
     \<and> snd (Decode r) = None
     \<and> Struct_UpdateTripRequest (API_validator api) (fst (Decode r)) = None
     \<and> GetTrip (API_store api) (db w) (fst (uuid_Parse x tripID)) = Inr trip
     \<and> UpdateTrip (API_store api) (db w)
          \<lparr>UpdateTripParams_Destination = UpdateTripRequest_Destination (fst (Decode r)),
           UpdateTripParams_EndsAt =
             \<lparr>Timestamp_Time = UpdateTripRequest_EndsAt (fst (Decode r)),
              Timestamp_InfinityModifier = Finite, Timestamp_Valid = True\<rparr>,
           UpdateTripParams_StartsAt =
             \<lparr>Timestamp_Time = UpdateTripRequest_StartsAt (fst (Decode r)),
              Timestamp_InfinityModifier = Finite, Timestamp_Valid = True\<rparr>,
           UpdateTripParams_IsConfirmed = Trip_IsConfirmed trip,
           UpdateTripParams_ID = Trip_ID trip\<rparr> = (None, db w')
     \<and> calls w' = calls w @
          [Call_GetTrip (fst (uuid_Parse x tripID)),
           Call_UpdateTrip
             \<lparr>UpdateTripParams_Destination = UpdateTripRequest_Destination (fst (Decode r)),
              UpdateTripParams_EndsAt =
                \<lparr>Timestamp_Time = UpdateTripRequest_EndsAt (fst (Decode r)),
                 Timestamp_InfinityModifier = Finite, Timestamp_Valid = True\<rparr>,
              UpdateTripParams_StartsAt =
                \<lparr>Timestamp_Time = UpdateTripRequest_StartsAt (fst (Decode r)),
                 Timestamp_InfinityModifier = Finite, Timestamp_Valid = True\<rparr>,
              UpdateTripParams_IsConfirmed = Trip_IsConfirmed trip,
              UpdateTripParams_ID = Trip_ID trip\<rparr>]"
  using ok
  by (auto simp: PutTripsTripID_def store_GetTrip_def store_UpdateTrip_def
      split: prod.splits option.splits sum.splits)

text \<open>
  Claim C3. For every existing trip and every update payload, a successful
  \<open>PutTripsTripID\<close> leaves the confirmation flag of the trip as it was: the handler makes two
  calls on the storage gateway, the lookup and one \<open>UpdateTrip\<close>, whose flag and identifier
  are those of the trip that was read and whose destination and times are those of the
  payload. The storage gateway is any implementation of the interface for which an accepted
  update of this trip stores the flag it is given; the flag read back after the call is
  then the flag read before it.
\<close>

theorem PutTripsTripID_keeps_IsConfirmed:
  assumes ok: "PutTripsTripID x api r tripID w = (None, w')"
    and found: "GetTrip (API_store api) (db w) (fst (uuid_Parse x tripID)) = Inr trip"
    and contract:
      "\<And>arg s. UpdateTrip (API_store api) (db w) arg = (None, s) \<Longrightarrow>
         UpdateTripParams_ID arg = Trip_ID trip \<Longrightarrow>
         \<exists>trip'. GetTrip (API_store api) s (fst (uuid_Parse x tripID)) = Inr trip'
                \<and> Trip_IsConfirmed trip' = UpdateTripParams_IsConfirmed arg"
  shows "\<exists>arg trip'.
      calls w' = calls w @ [Call_GetTrip (fst (uuid_Parse x tripID)), Call_UpdateTrip arg]
      \<and> UpdateTripParams_IsConfirmed arg = Trip_IsConfirmed trip
      \<and> UpdateTripParams_ID arg = Trip_ID trip
      \<and> UpdateTripParams_Destination arg = UpdateTripRequest_Destination (fst (Decode r))
      \<and> Timestamp_Time (UpdateTripParams_StartsAt arg) = UpdateTripRequest_StartsAt (fst (Decode r))
      \<and> Timestamp_Time (UpdateTripParams_EndsAt arg) = UpdateTripRequest_EndsAt (fst (Decode r))
      \<and> UpdateTrip (API_store api) (db w) arg = (None, db w')
      \<and> GetTrip (API_store api) (db w') (fst (uuid_Parse x tripID)) = Inr trip'
      \<and> Trip_IsConfirmed trip' = Trip_IsConfirmed trip"
proof -
  let ?arg = "\<lparr>UpdateTripParams_Destination = UpdateTripRequest_Destination (fst (Decode r)),
           UpdateTripParams_EndsAt =
             \<lparr>Timestamp_Time = UpdateTripRequest_EndsAt (fst (Decode r)),
              Timestamp_InfinityModifier = Finite, Timestamp_Valid = True\<rparr>,
           UpdateTripParams_StartsAt =
             \<lparr>Timestamp_Time = UpdateTripRequest_StartsAt (fst (Decode r)),
              Timestamp_InfinityModifier = Finite, Timestamp_Valid = True\<rparr>,
           UpdateTripParams_IsConfirmed = Trip_IsConfirmed trip,
           UpdateTripParams_ID = Trip_ID trip\<rparr>"
  from PutTripsTripID_success [OF ok] found
  have upd: "UpdateTrip (API_store api) (db w) ?arg = (None, db w')"
    and tr: "calls w' = calls w @ [Call_GetTrip (fst (uuid_Parse x tripID)), Call_UpdateTrip ?arg]"
    by auto
  from contract [OF upd] obtain trip' where
    "GetTrip (API_store api) (db w') (fst (uuid_Parse x tripID)) = Inr trip'"
    "Trip_IsConfirmed trip' = Trip_IsConfirmed trip"
    by auto
  with upd tr show ?thesis
    by (intro exI [of _ ?arg] exI [of _ trip']) simp
qed

text \<open>
  On the in-memory storage, with the trip to Lisbon confirmed: the update to Porto succeeds
  and the trip is still confirmed.
\<close>

theorem PutTripsTripID_keeps_IsConfirmed_witness:
  "GetTrip (API_store mem_API) (db (world0 confirmed_db)) lisbon_id =
     Inr (lisbon\<lparr>Trip_IsConfirmed := True\<rparr>)
   \<and> (\<exists>w'. PutTripsTripID canonical_env mem_API lisbon_update
               ''9f1c2d3e-4a5b-46c7-8d9e-0f1a2b3c4d5e'' (world0 confirmed_db) = (None, w')
          \<and> (\<exists>arg. calls w' = [Call_GetTrip lisbon_id, Call_UpdateTrip arg]
                 \<and> UpdateTripParams_IsConfirmed arg = True
                 \<and> UpdateTripParams_Destination arg = ''Porto'')
          \<and> (\<exists>trip'. GetTrip (API_store mem_API) (db w') lisbon_id = Inr trip'
                 \<and> Trip_IsConfirmed trip' = True))"
proof -
  have id': "fst (uuid_Parse canonical_env ''9f1c2d3e-4a5b-46c7-8d9e-0f1a2b3c4d5e'') = lisbon_id"
    by (simp add: Parse_lisbon)
  have found: "GetTrip (API_store mem_API) (db (world0 confirmed_db))
                 (fst (uuid_Parse canonical_env ''9f1c2d3e-4a5b-46c7-8d9e-0f1a2b3c4d5e'')) =
               Inr (lisbon\<lparr>Trip_IsConfirmed := True\<rparr>)"
    unfolding id' by (simp add: mem_defs confirmed_db_def example_db_def lisbon_def)
  have "fst (PutTripsTripID canonical_env mem_API lisbon_update
               ''9f1c2d3e-4a5b-46c7-8d9e-0f1a2b3c4d5e'' (world0 confirmed_db)) = None"
    by (simp add: PutTripsTripID_def Parse_lisbon lisbon_update_def store_GetTrip_def
        store_UpdateTrip_def mem_defs confirmed_db_def example_db_def lisbon_def)
  then obtain w' where ok: "PutTripsTripID canonical_env mem_API lisbon_update
               ''9f1c2d3e-4a5b-46c7-8d9e-0f1a2b3c4d5e'' (world0 confirmed_db) = (None, w')"
    by (metis prod.collapse)
  have contract: "\<exists>trip'. GetTrip (API_store mem_API) s
                     (fst (uuid_Parse canonical_env ''9f1c2d3e-4a5b-46c7-8d9e-0f1a2b3c4d5e'')) = Inr trip'
                \<and> Trip_IsConfirmed trip' = UpdateTripParams_IsConfirmed arg"
    if "UpdateTrip (API_store mem_API) (db (world0 confirmed_db)) arg = (None, s)"
      and "UpdateTripParams_ID arg = Trip_ID (lisbon\<lparr>Trip_IsConfirmed := True\<rparr>)" for arg s
    using that unfolding id'
    by (auto simp: mem_defs confirmed_db_def example_db_def lisbon_def)
  from PutTripsTripID_keeps_IsConfirmed [OF ok found contract]
  obtain arg trip' where
    "calls w' = calls (world0 confirmed_db) @
        [Call_GetTrip (fst (uuid_Parse canonical_env ''9f1c2d3e-4a5b-46c7-8d9e-0f1a2b3c4d5e'')),
         Call_UpdateTrip arg]"
    "UpdateTripParams_IsConfirmed arg = Trip_IsConfirmed (lisbon\<lparr>Trip_IsConfirmed := True\<rparr>)"
    "UpdateTripParams_Destination arg = UpdateTripRequest_Destination (fst (Decode lisbon_update))"
    "GetTrip (API_store mem_API) (db w')
       (fst (uuid_Parse canonical_env ''9f1c2d3e-4a5b-46c7-8d9e-0f1a2b3c4d5e'')) = Inr trip'"
    "Trip_IsConfirmed trip' = Trip_IsConfirmed (lisbon\<lparr>Trip_IsConfirmed := True\<rparr>)"
    by blast
  then have "(\<exists>arg. calls w' = [Call_GetTrip lisbon_id, Call_UpdateTrip arg]
                 \<and> UpdateTripParams_IsConfirmed arg = True
                 \<and> UpdateTripParams_Destination arg = ''Porto'')"
    and "(\<exists>trip'. GetTrip (API_store mem_API) (db w') lisbon_id = Inr trip'
                 \<and> Trip_IsConfirmed trip' = True)"
    unfolding id' by (simp_all add: world0_def lisbon_update_def)
  with ok found show ?thesis unfolding id' by blast
qed

text \<open>
  On the in-memory storage, in every state: after a successful update the trip has the
  destination and the times of the payload, and every other column as before, the
  confirmation flag among them.
\<close>

lemma PutTripsTripID_in_memory:
  assumes st: "API_store api = mem_store"
    and ok: "PutTripsTripID x api r tripID w = (None, w')"
    and found: "mem_GetTrip (db w) (fst (uuid_Parse x tripID)) = Inr trip"
  shows "mem_GetTrip (db w') (fst (uuid_Parse x tripID)) =
           Inr (trip\<lparr>Trip_Destination := UpdateTripRequest_Destination (fst (Decode r)),
                     Trip_EndsAt := \<lparr>Timestamp_Time = UpdateTripRequest_EndsAt (fst (Decode r)),
                                     Timestamp_InfinityModifier = Finite, Timestamp_Valid = True\<rparr>,
                     Trip_StartsAt := \<lparr>Timestamp_Time = UpdateTripRequest_StartsAt (fst (Decode r)),
                                       Timestamp_InfinityModifier = Finite, Timestamp_Valid = True\<rparr>\<rparr>)"
proof -
  let ?arg = "\<lparr>UpdateTripParams_Destination = UpdateTripRequest_Destination (fst (Decode r)),
           UpdateTripParams_EndsAt =
             \<lparr>Timestamp_Time = UpdateTripRequest_EndsAt (fst (Decode r)),
              Timestamp_InfinityModifier = Finite, Timestamp_Valid = True\<rparr>,
           UpdateTripParams_StartsAt =
             \<lparr>Timestamp_Time = UpdateTripRequest_StartsAt (fst (Decode r)),
              Timestamp_InfinityModifier = Finite, Timestamp_Valid = True\<rparr>,
           UpdateTripParams_IsConfirmed = Trip_IsConfirmed trip,
           UpdateTripParams_ID = Trip_ID trip\<rparr>"
  from PutTripsTripID_success [OF ok] found st
  have "mem_UpdateTrip (db w) ?arg = (None, db w')"
    by (auto simp: mem_store_def)
  then have "db w' = snd (mem_UpdateTrip (db w) ?arg)"
    by simp
  with mem_GetTrip_after_UpdateTrip [OF found, of ?arg] mem_GetTrip_ID [OF found]
  show ?thesis by simp
qed

section \<open>PATCH /participants/{participantId}/confirm: once\<close>

text \<open>
  Claim C4. For an existing unconfirmed participant, the first call of
  \<open>PatchParticipantsParticipantIDConfirm\<close> calls \<open>ConfirmParticipant\<close> and returns 204 (the
  storage accepts the write and then reports the participant as confirmed). A second call
  on the resulting world returns a 400 response with the message for a participant that is
  already confirmed; it makes one call, the lookup, and leaves the storage as it is. A
  malformed identifier and a participant that is not found get 400 responses with messages
  of their own, and the three messages are pairwise distinct.
\<close>

theorem PatchParticipantsParticipantIDConfirm_twice:
  assumes parse: "uuid_Parse x participantID = (id', None)"
    and unconfirmed: "GetParticipant (API_store api) (db w) id' = Inr participant"
                     "Participant_IsConfirmed participant = False"
    and written: "ConfirmParticipant (API_store api) (db w) id' = (None, s1)"
    and now_confirmed: "GetParticipant (API_store api) s1 id' = Inr participant1"
                       "Participant_IsConfirmed participant1 = True"
    and w1: "w1 = w\<lparr>db := s1, calls := calls w @ [Call_GetParticipant id', Call_ConfirmParticipant id']\<rparr>"
  shows "PatchParticipantsParticipantIDConfirm x api participantID w =
           (Some \<lparr>Response_body = Body_nil, Response_Code = 204,
                  Response_contentType = ''application/json''\<rparr>, w1)
       \<and> PatchParticipantsParticipantIDConfirm x api participantID w1 =
           (Some \<lparr>Response_body = Body_Error
                    \<lparr>Error_Message = ''participant j'' @ [CHR 0xC3, CHR 0xA1] @ '' confirmado''\<rparr>,
                  Response_Code = 400, Response_contentType = ''application/json''\<rparr>,
            w1\<lparr>calls := calls w1 @ [Call_GetParticipant id']\<rparr>)
       \<and> db (snd (PatchParticipantsParticipantIDConfirm x api participantID w1)) = db w1
       \<and> (\<forall>malformed err w2 u.
            uuid_Parse x malformed = (u, Some err) \<longrightarrow>
            fst (PatchParticipantsParticipantIDConfirm x api malformed w2) =
              Some \<lparr>Response_body = Body_Error \<lparr>Error_Message = ''uuid invalido''\<rparr>,
                    Response_Code = 400, Response_contentType = ''application/json''\<rparr>)
       \<and> (\<forall>unknown id2 w2.
            uuid_Parse x unknown = (id2, None)
            \<and> GetParticipant (API_store api) (db w2) id2 = Inl ErrNoRows \<longrightarrow>
            fst (PatchParticipantsParticipantIDConfirm x api unknown w2) =
              Some \<lparr>Response_body = Body_Error
                      \<lparr>Error_Message = ''participant n'' @ [CHR 0xC3, CHR 0xA3] @ ''o encontrado''\<rparr>,
                    Response_Code = 400, Response_contentType = ''application/json''\<rparr>)
       \<and> ''uuid invalido'' \<noteq> ''participant n'' @ [CHR 0xC3, CHR 0xA3] @ ''o encontrado''
       \<and> ''uuid invalido'' \<noteq> ''participant j'' @ [CHR 0xC3, CHR 0xA1] @ '' confirmado''
       \<and> ''participant n'' @ [CHR 0xC3, CHR 0xA3] @ ''o encontrado''
           \<noteq> ''participant j'' @ [CHR 0xC3, CHR 0xA1] @ '' confirmado''"
  using assms
  by (simp add: PatchParticipantsParticipantIDConfirm_def store_GetParticipant_def
      store_ConfirmParticipant_def response_defs)

text \<open>
  On the in-memory storage: the invited participant of the trip to Lisbon is confirmed by
  the first call and refused by the second.
\<close>

theorem PatchParticipantsParticipantIDConfirm_twice_witness:
  "PatchParticipantsParticipantIDConfirm canonical_env mem_API
       ''2b7e1516-28ae-d2a6-abf7-158809cf4f3c'' (world0 example_db) =
     (Some \<lparr>Response_body = Body_nil, Response_Code = 204,
            Response_contentType = ''application/json''\<rparr>,
      (world0 guest_confirmed_db)\<lparr>calls := [Call_GetParticipant guest_id, Call_ConfirmParticipant guest_id]\<rparr>)
   \<and> PatchParticipantsParticipantIDConfirm canonical_env mem_API
       ''2b7e1516-28ae-d2a6-abf7-158809cf4f3c''
       ((world0 guest_confirmed_db)\<lparr>calls := [Call_GetParticipant guest_id, Call_ConfirmParticipant guest_id]\<rparr>) =
     (Some \<lparr>Response_body = Body_Error
              \<lparr>Error_Message = ''participant j'' @ [CHR 0xC3, CHR 0xA1] @ '' confirmado''\<rparr>,
            Response_Code = 400, Response_contentType = ''application/json''\<rparr>,
      (world0 guest_confirmed_db)
        \<lparr>calls := [Call_GetParticipant guest_id, Call_ConfirmParticipant guest_id,
                    Call_GetParticipant guest_id]\<rparr>)
   \<and> fst (PatchParticipantsParticipantIDConfirm canonical_env mem_API ''not-a-uuid'' (world0 example_db)) =
       Some \<lparr>Response_body = Body_Error \<lparr>Error_Message = ''uuid invalido''\<rparr>,
             Response_Code = 400, Response_contentType = ''application/json''\<rparr>
   \<and> fst (PatchParticipantsParticipantIDConfirm canonical_env mem_API
            ''00000000-0000-0000-0000-0000000000ff'' (world0 example_db)) =
       Some \<lparr>Response_body = Body_Error
               \<lparr>Error_Message = ''participant n'' @ [CHR 0xC3, CHR 0xA3] @ ''o encontrado''\<rparr>,
             Response_Code = 400, Response_contentType = ''application/json''\<rparr>"
proof -
  let ?w1 = "(world0 example_db)
               \<lparr>db := guest_confirmed_db,
                calls := calls (world0 example_db) @
                  [Call_GetParticipant guest_id, Call_ConfirmParticipant guest_id]\<rparr>"
  have unconfirmed: "Participant_IsConfirmed guest = False"
    by (simp add: guest_def)
  have now_confirmed: "Participant_IsConfirmed (guest\<lparr>Participant_IsConfirmed := True\<rparr>) = True"
    by simp
  note inst = PatchParticipantsParticipantIDConfirm_twice
    [OF Parse_guest GetParticipant_guest unconfirmed ConfirmParticipant_guest
        GetParticipant_guest_confirmed now_confirmed, of ?w1, OF refl]
  have w1: "?w1 = (world0 guest_confirmed_db)
                    \<lparr>calls := [Call_GetParticipant guest_id, Call_ConfirmParticipant guest_id]\<rparr>"
    by (simp add: world0_def)
  have first: "PatchParticipantsParticipantIDConfirm canonical_env mem_API
       ''2b7e1516-28ae-d2a6-abf7-158809cf4f3c'' (world0 example_db) =
     (Some \<lparr>Response_body = Body_nil, Response_Code = 204,
            Response_contentType = ''application/json''\<rparr>,
      (world0 guest_confirmed_db)\<lparr>calls := [Call_GetParticipant guest_id, Call_ConfirmParticipant guest_id]\<rparr>)"
    using inst [THEN conjunct1] unfolding w1 .
  have second: "PatchParticipantsParticipantIDConfirm canonical_env mem_API
       ''2b7e1516-28ae-d2a6-abf7-158809cf4f3c''
       ((world0 guest_confirmed_db)\<lparr>calls := [Call_GetParticipant guest_id, Call_ConfirmParticipant guest_id]\<rparr>) =
     (Some \<lparr>Response_body = Body_Error
              \<lparr>Error_Message = ''participant j'' @ [CHR 0xC3, CHR 0xA1] @ '' confirmado''\<rparr>,
            Response_Code = 400, Response_contentType = ''application/json''\<rparr>,
      (world0 guest_confirmed_db)
        \<lparr>calls := [Call_GetParticipant guest_id, Call_ConfirmParticipant guest_id,
                    Call_GetParticipant guest_id]\<rparr>)"
    using inst [THEN conjunct2, THEN conjunct1] unfolding w1 by simp
  have malformed: "fst (PatchParticipantsParticipantIDConfirm canonical_env mem_API ''not-a-uuid'' (world0 example_db)) =
       Some \<lparr>Response_body = Body_Error \<lparr>Error_Message = ''uuid invalido''\<rparr>,
             Response_Code = 400, Response_contentType = ''application/json''\<rparr>"
    using inst [THEN conjunct2, THEN conjunct2, THEN conjunct2, THEN conjunct1, rule_format,
                OF Parse_malformed] .
  have unknown: "fst (PatchParticipantsParticipantIDConfirm canonical_env mem_API
            ''00000000-0000-0000-0000-0000000000ff'' (world0 example_db)) =
       Some \<lparr>Response_body = Body_Error
               \<lparr>Error_Message = ''participant n'' @ [CHR 0xC3, CHR 0xA3] @ ''o encontrado''\<rparr>,
             Response_Code = 400, Response_contentType = ''application/json''\<rparr>"
    using inst [THEN conjunct2, THEN conjunct2, THEN conjunct2, THEN conjunct2, THEN conjunct1,
                rule_format, OF conjI, OF Parse_unknown GetParticipant_unknown] .
  show ?thesis using first second malformed unknown by blast
qed

text \<open>
  On the in-memory storage, in every state with the participant unconfirmed: the first call
  returns 204 and the participant is stored as confirmed; the second call is refused.
\<close>

lemma PatchParticipantsParticipantIDConfirm_in_memory:
  assumes st: "API_store api = mem_store"
    and parse: "uuid_Parse x participantID = (id', None)"
    and found: "mem_GetParticipant (db w) id' = Inr participant"
    and unconfirmed: "Participant_IsConfirmed participant = False"
    and w1: "w1 = snd (PatchParticipantsParticipantIDConfirm x api participantID w)"
  shows "fst (PatchParticipantsParticipantIDConfirm x api participantID w) =
           Some \<lparr>Response_body = Body_nil, Response_Code = 204,
                 Response_contentType = ''application/json''\<rparr>"
    and "mem_GetParticipant (db w1) id' = Inr (participant\<lparr>Participant_IsConfirmed := True\<rparr>)"
    and "PatchParticipantsParticipantIDConfirm x api participantID w1 =
           (Some \<lparr>Response_body = Body_Error
                    \<lparr>Error_Message = ''participant j'' @ [CHR 0xC3, CHR 0xA1] @ '' confirmado''\<rparr>,
                  Response_Code = 400, Response_contentType = ''application/json''\<rparr>,
            w1\<lparr>calls := calls w1 @ [Call_GetParticipant id']\<rparr>)"
proof -
  have first: "PatchParticipantsParticipantIDConfirm x api participantID w =
      (Some \<lparr>Response_body = Body_nil, Response_Code = 204,
             Response_contentType = ''application/json''\<rparr>,
       w\<lparr>db := snd (mem_ConfirmParticipant (db w) id'),
         calls := calls w @ [Call_GetParticipant id', Call_ConfirmParticipant id']\<rparr>)"
    using st parse found unconfirmed
    by (simp add: PatchParticipantsParticipantIDConfirm_def store_GetParticipant_def
        store_ConfirmParticipant_def response_defs mem_store_def mem_ConfirmParticipant_def)
  then show "fst (PatchParticipantsParticipantIDConfirm x api participantID w) =
           Some \<lparr>Response_body = Body_nil, Response_Code = 204,
                 Response_contentType = ''application/json''\<rparr>"
    by simp
  from first w1 have db1: "db w1 = snd (mem_ConfirmParticipant (db w) id')"
    by simp
  with mem_GetParticipant_after_ConfirmParticipant [OF found]
  show stored: "mem_GetParticipant (db w1) id' = Inr (participant\<lparr>Participant_IsConfirmed := True\<rparr>)"
    by simp
  then show "PatchParticipantsParticipantIDConfirm x api participantID w1 =
           (Some \<lparr>Response_body = Body_Error
                    \<lparr>Error_Message = ''participant j'' @ [CHR 0xC3, CHR 0xA1] @ '' confirmado''\<rparr>,
                  Response_Code = 400, Response_contentType = ''application/json''\<rparr>,
            w1\<lparr>calls := calls w1 @ [Call_GetParticipant id']\<rparr>)"
    using st parse
    by (simp add: PatchParticipantsParticipantIDConfirm_def store_GetParticipant_def
        response_defs mem_store_def)
qed

section \<open>GET /trips/{tripId}/confirm: idempotent\<close>

text \<open>
  Claim C5. For an existing trip, \<open>GetTripsTripIDConfirm\<close> rewrites the trip with the
  confirmation flag set, and with the destination, the start time and the end time that
  were read, and returns 204. The storage gateway is any implementation of the interface
  that accepts this write, then returns the trip as written, and is left as it is by
  writing the same values again. A second call then makes the same write, returns the same
  204 response and leaves the storage in the same state.
\<close>

theorem GetTripsTripIDConfirm_sets_flag_idempotent:
  assumes parse: "uuid_Parse x tripID = (id', None)"
    and found: "GetTrip (API_store api) (db w) id' = Inr trip"
    and arg: "arg = \<lparr>UpdateTripParams_Destination = Trip_Destination trip,
                     UpdateTripParams_EndsAt =
                       \<lparr>Timestamp_Time = Timestamp_Time (Trip_EndsAt trip),
                        Timestamp_InfinityModifier = Finite, Timestamp_Valid = True\<rparr>,
                     UpdateTripParams_StartsAt =
                       \<lparr>Timestamp_Time = Timestamp_Time (Trip_StartsAt trip),
                        Timestamp_InfinityModifier = Finite, Timestamp_Valid = True\<rparr>,
                     UpdateTripParams_IsConfirmed = True,
                     UpdateTripParams_ID = Trip_ID trip\<rparr>"
    and written: "UpdateTrip (API_store api) (db w) arg = (None, s1)"
    and stored: "GetTrip (API_store api) s1 id' =
                   Inr (trip\<lparr>Trip_Destination := UpdateTripParams_Destination arg,
                             Trip_EndsAt := UpdateTripParams_EndsAt arg,
                             Trip_StartsAt := UpdateTripParams_StartsAt arg,
                             Trip_IsConfirmed := UpdateTripParams_IsConfirmed arg\<rparr>)"
    and rewritten: "UpdateTrip (API_store api) s1 arg = (None, s1)"
    and w1: "w1 = w\<lparr>db := s1, calls := calls w @ [Call_GetTrip id', Call_UpdateTrip arg]\<rparr>"
  shows "GetTripsTripIDConfirm x api tripID w =
           (Some \<lparr>Response_body = Body_string [], Response_Code = 204,
                  Response_contentType = ''application/json''\<rparr>, w1)
       \<and> UpdateTripParams_IsConfirmed arg = True
       \<and> UpdateTripParams_Destination arg = Trip_Destination trip
       \<and> Timestamp_Time (UpdateTripParams_StartsAt arg) = Timestamp_Time (Trip_StartsAt trip)
       \<and> Timestamp_Time (UpdateTripParams_EndsAt arg) = Timestamp_Time (Trip_EndsAt trip)
       \<and> UpdateTripParams_ID arg = Trip_ID trip
       \<and> (Timestamp_Valid (Trip_StartsAt trip)
            \<and> Timestamp_InfinityModifier (Trip_StartsAt trip) = Finite \<longrightarrow>
            UpdateTripParams_StartsAt arg = Trip_StartsAt trip)
       \<and> (Timestamp_Valid (Trip_EndsAt trip)
            \<and> Timestamp_InfinityModifier (Trip_EndsAt trip) = Finite \<longrightarrow>
            UpdateTripParams_EndsAt arg = Trip_EndsAt trip)
       \<and> GetTripsTripIDConfirm x api tripID w1 =
           (Some \<lparr>Response_body = Body_string [], Response_Code = 204,
                  Response_contentType = ''application/json''\<rparr>,
            w1\<lparr>calls := calls w1 @ [Call_GetTrip id', Call_UpdateTrip arg]\<rparr>)
       \<and> db (snd (GetTripsTripIDConfirm x api tripID w1)) = db w1"
  using assms
  by (simp add: GetTripsTripIDConfirm_def store_GetTrip_def store_UpdateTrip_def response_defs)

text \<open>
On the in-memory storage: the trip to Lisbon, unconfirmed, is confirmed twice.
\<close>

theorem GetTripsTripIDConfirm_sets_flag_idempotent_witness:
  "GetTrip (API_store mem_API) (db (world0 example_db)) lisbon_id = Inr lisbon
   \<and> Trip_IsConfirmed lisbon = False
   \<and> Timestamp_Valid (Trip_StartsAt lisbon) \<and> Timestamp_InfinityModifier (Trip_StartsAt lisbon) = Finite
   \<and> Timestamp_Valid (Trip_EndsAt lisbon) \<and> Timestamp_InfinityModifier (Trip_EndsAt lisbon) = Finite
   \<and> (\<exists>w1 arg. GetTripsTripIDConfirm canonical_env mem_API
                ''9f1c2d3e-4a5b-46c7-8d9e-0f1a2b3c4d5e'' (world0 example_db) =
              (Some \<lparr>Response_body = Body_string [], Response_Code = 204,
                     Response_contentType = ''application/json''\<rparr>, w1)
          \<and> calls w1 = [Call_GetTrip lisbon_id, Call_UpdateTrip arg]
          \<and> UpdateTripParams_IsConfirmed arg = True
          \<and> UpdateTripParams_Destination arg = Trip_Destination lisbon
          \<and> UpdateTripParams_StartsAt arg = Trip_StartsAt lisbon
          \<and> UpdateTripParams_EndsAt arg = Trip_EndsAt lisbon
          \<and> db w1 = confirmed_db
          \<and> GetTrip (API_store mem_API) (db w1) lisbon_id = Inr (lisbon\<lparr>Trip_IsConfirmed := True\<rparr>)
          \<and> fst (GetTripsTripIDConfirm canonical_env mem_API
                ''9f1c2d3e-4a5b-46c7-8d9e-0f1a2b3c4d5e'' w1) =
              Some \<lparr>Response_body = Body_string [], Response_Code = 204,
                     Response_contentType = ''application/json''\<rparr>
          \<and> db (snd (GetTripsTripIDConfirm canonical_env mem_API
                ''9f1c2d3e-4a5b-46c7-8d9e-0f1a2b3c4d5e'' w1)) = confirmed_db)"
proof -
  let ?arg = "\<lparr>UpdateTripParams_Destination = Trip_Destination lisbon,
                UpdateTripParams_EndsAt =
                  \<lparr>Timestamp_Time = Timestamp_Time (Trip_EndsAt lisbon),
                   Timestamp_InfinityModifier = Finite, Timestamp_Valid = True\<rparr>,
                UpdateTripParams_StartsAt =
                  \<lparr>Timestamp_Time = Timestamp_Time (Trip_StartsAt lisbon),
                   Timestamp_InfinityModifier = Finite, Timestamp_Valid = True\<rparr>,
                UpdateTripParams_IsConfirmed = True,
                UpdateTripParams_ID = Trip_ID lisbon\<rparr>"
  let ?w1 = "(world0 example_db)
               \<lparr>db := confirmed_db,
                calls := calls (world0 example_db) @ [Call_GetTrip lisbon_id, Call_UpdateTrip ?arg]\<rparr>"
  have found: "GetTrip (API_store mem_API) (db (world0 example_db)) lisbon_id = Inr lisbon"
    by (simp add: mem_defs example_db_def lisbon_def)
  have flag: "Trip_IsConfirmed lisbon = False"
    by (simp add: lisbon_def)
  have written: "UpdateTrip (API_store mem_API) (db (world0 example_db)) ?arg = (None, confirmed_db)"
    by (simp add: mem_defs confirmed_db_def example_db_def lisbon_def timestamp_def)
  have stored: "GetTrip (API_store mem_API) confirmed_db lisbon_id =
                  Inr (lisbon\<lparr>Trip_Destination := UpdateTripParams_Destination ?arg,
                             Trip_EndsAt := UpdateTripParams_EndsAt ?arg,
                             Trip_StartsAt := UpdateTripParams_StartsAt ?arg,
                             Trip_IsConfirmed := UpdateTripParams_IsConfirmed ?arg\<rparr>)"
    by (simp add: mem_defs confirmed_db_def example_db_def lisbon_def timestamp_def)
  have rewritten: "UpdateTrip (API_store mem_API) confirmed_db ?arg = (None, confirmed_db)"
    by (simp add: mem_defs confirmed_db_def example_db_def lisbon_def timestamp_def)
  note inst = GetTripsTripIDConfirm_sets_flag_idempotent
    [OF Parse_lisbon found refl written stored rewritten, of ?w1, OF refl]
  have after: "GetTrip (API_store mem_API) (db ?w1) lisbon_id = Inr (lisbon\<lparr>Trip_IsConfirmed := True\<rparr>)"
    by (simp add: mem_defs confirmed_db_def example_db_def lisbon_def)
  have valid: "Timestamp_Valid (Trip_StartsAt lisbon)"
    "Timestamp_InfinityModifier (Trip_StartsAt lisbon) = Finite"
    "Timestamp_Valid (Trip_EndsAt lisbon)"
    "Timestamp_InfinityModifier (Trip_EndsAt lisbon) = Finite"
    by (simp_all add: lisbon_def timestamp_def)
  have starts: "UpdateTripParams_StartsAt ?arg = Trip_StartsAt lisbon"
    using inst [THEN conjunct2, THEN conjunct2, THEN conjunct2, THEN conjunct2, THEN conjunct2,
                THEN conjunct2, THEN conjunct1, rule_format, OF conjI, OF valid(1) valid(2)] .
  have ends: "UpdateTripParams_EndsAt ?arg = Trip_EndsAt lisbon"
    using inst [THEN conjunct2, THEN conjunct2, THEN conjunct2, THEN conjunct2, THEN conjunct2,
                THEN conjunct2, THEN conjunct2, THEN conjunct1, rule_format, OF conjI,
                OF valid(3) valid(4)] .
  have trace: "calls ?w1 = [Call_GetTrip lisbon_id, Call_UpdateTrip ?arg]"
    "UpdateTripParams_IsConfirmed ?arg = True"
    "UpdateTripParams_Destination ?arg = Trip_Destination lisbon"
    by (simp_all add: world0_def)
  have "GetTripsTripIDConfirm canonical_env mem_API
                ''9f1c2d3e-4a5b-46c7-8d9e-0f1a2b3c4d5e'' (world0 example_db) =
              (Some \<lparr>Response_body = Body_string [], Response_Code = 204,
                     Response_contentType = ''application/json''\<rparr>, ?w1)"
    and "db ?w1 = confirmed_db"
    and "fst (GetTripsTripIDConfirm canonical_env mem_API
                ''9f1c2d3e-4a5b-46c7-8d9e-0f1a2b3c4d5e'' ?w1) =
              Some \<lparr>Response_body = Body_string [], Response_Code = 204,
                     Response_contentType = ''application/json''\<rparr>"
    and "db (snd (GetTripsTripIDConfirm canonical_env mem_API
                ''9f1c2d3e-4a5b-46c7-8d9e-0f1a2b3c4d5e'' ?w1)) = confirmed_db"
    using inst by simp_all
  with found flag after valid starts ends trace show ?thesis by blast
qed

text \<open>
  On the in-memory storage, in every state with the trip: the first call returns 204 and
  the trip is stored as confirmed, with its destination and times; the second call returns
  204 and leaves the storage as the first call left it.
\<close>

lemma GetTripsTripIDConfirm_in_memory:
  assumes st: "API_store api = mem_store"
    and parse: "uuid_Parse x tripID = (id', None)"
    and found: "mem_GetTrip (db w) id' = Inr trip"
    and w1: "w1 = snd (GetTripsTripIDConfirm x api tripID w)"
    and w2: "w2 = snd (GetTripsTripIDConfirm x api tripID w1)"
  shows "fst (GetTripsTripIDConfirm x api tripID w) =
           Some \<lparr>Response_body = Body_string [], Response_Code = 204,
                 Response_contentType = ''application/json''\<rparr>"
    and "mem_GetTrip (db w1) id' =
           Inr (trip\<lparr>Trip_EndsAt := \<lparr>Timestamp_Time = Timestamp_Time (Trip_EndsAt trip),
                                     Timestamp_InfinityModifier = Finite, Timestamp_Valid = True\<rparr>,
                     Trip_StartsAt := \<lparr>Timestamp_Time = Timestamp_Time (Trip_StartsAt trip),
                                       Timestamp_InfinityModifier = Finite, Timestamp_Valid = True\<rparr>,
                     Trip_IsConfirmed := True\<rparr>)"
    and "fst (GetTripsTripIDConfirm x api tripID w1) =
           Some \<lparr>Response_body = Body_string [], Response_Code = 204,
                 Response_contentType = ''application/json''\<rparr>"
    and "db w2 = db w1"
proof -
  let ?arg = "\<lparr>UpdateTripParams_Destination = Trip_Destination trip,
                UpdateTripParams_EndsAt =
                  \<lparr>Timestamp_Time = Timestamp_Time (Trip_EndsAt trip),
                   Timestamp_InfinityModifier = Finite, Timestamp_Valid = True\<rparr>,
                UpdateTripParams_StartsAt =
                  \<lparr>Timestamp_Time = Timestamp_Time (Trip_StartsAt trip),
                   Timestamp_InfinityModifier = Finite, Timestamp_Valid = True\<rparr>,
                UpdateTripParams_IsConfirmed = True,
                UpdateTripParams_ID = Trip_ID trip\<rparr>"
  let ?trip1 = "trip\<lparr>Trip_EndsAt := \<lparr>Timestamp_Time = Timestamp_Time (Trip_EndsAt trip),
                                     Timestamp_InfinityModifier = Finite, Timestamp_Valid = True\<rparr>,
                     Trip_StartsAt := \<lparr>Timestamp_Time = Timestamp_Time (Trip_StartsAt trip),
                                       Timestamp_InfinityModifier = Finite, Timestamp_Valid = True\<rparr>,
                     Trip_IsConfirmed := True\<rparr>"
  have first: "GetTripsTripIDConfirm x api tripID w =
      (Some \<lparr>Response_body = Body_string [], Response_Code = 204,
             Response_contentType = ''application/json''\<rparr>,
       w\<lparr>db := snd (mem_UpdateTrip (db w) ?arg),
         calls := calls w @ [Call_GetTrip id', Call_UpdateTrip ?arg]\<rparr>)"
    using st parse found
    by (simp add: GetTripsTripIDConfirm_def store_GetTrip_def store_UpdateTrip_def response_defs
        mem_store_def mem_UpdateTrip_def)
  then show "fst (GetTripsTripIDConfirm x api tripID w) =
           Some \<lparr>Response_body = Body_string [], Response_Code = 204,
                 Response_contentType = ''application/json''\<rparr>"
    by simp
  from first w1 have db1: "db w1 = snd (mem_UpdateTrip (db w) ?arg)"
    by simp
  with mem_GetTrip_after_UpdateTrip [OF found, of ?arg] mem_GetTrip_ID [OF found]
  show stored: "mem_GetTrip (db w1) id' = Inr ?trip1"
    by simp
  have arg1: "\<lparr>UpdateTripParams_Destination = Trip_Destination ?trip1,
                UpdateTripParams_EndsAt =
                  \<lparr>Timestamp_Time = Timestamp_Time (Trip_EndsAt ?trip1),
                   Timestamp_InfinityModifier = Finite, Timestamp_Valid = True\<rparr>,
                UpdateTripParams_StartsAt =
                  \<lparr>Timestamp_Time = Timestamp_Time (Trip_StartsAt ?trip1),
                   Timestamp_InfinityModifier = Finite, Timestamp_Valid = True\<rparr>,
                UpdateTripParams_IsConfirmed = True,
                UpdateTripParams_ID = Trip_ID ?trip1\<rparr> = ?arg"
    by simp
  have second: "GetTripsTripIDConfirm x api tripID w1 =
      (Some \<lparr>Response_body = Body_string [], Response_Code = 204,
             Response_contentType = ''application/json''\<rparr>,
       w1\<lparr>db := snd (mem_UpdateTrip (db w1) ?arg),
          calls := calls w1 @ [Call_GetTrip id', Call_UpdateTrip ?arg]\<rparr>)"
    using st parse stored
    by (simp add: GetTripsTripIDConfirm_def store_GetTrip_def store_UpdateTrip_def response_defs
        mem_store_def mem_UpdateTrip_def)
  then show "fst (GetTripsTripIDConfirm x api tripID w1) =
           Some \<lparr>Response_body = Body_string [], Response_Code = 204,
                 Response_contentType = ''application/json''\<rparr>"
    by simp
  from second w2 have "db w2 = snd (mem_UpdateTrip (db w1) ?arg)"
    by simp
  with db1 mem_UpdateTrip_again [of "db w" ?arg] show "db w2 = db w1"
    by simp
qed

section \<open>POST /trips/{tripId}/activities: the trip must exist\<close>

text \<open>
  Claim C6. For a well-formed trip identifier whose lookup fails,
  \<open>PostTripsTripIDActivities\<close> returns a 400 response, leaves the storage as it is and makes
  no call but (at most) the lookup: \<open>CreateActivity\<close> is not called. When the body decodes
  and passes validation, the trip exists and the storage creates the activity, the handler
  returns 201 with the identifier that the storage generated.
\<close>

theorem PostTripsTripIDActivities_requires_trip:
  "(\<forall>id' err.
      uuid_Parse x tripID = (id', None) \<and> GetTrip (API_store api) (db w) id' = Inl err \<longrightarrow>
      (\<exists>resp w'. PostTripsTripIDActivities x api r tripID w = (Some resp, w')
         \<and> Response_Code resp = 400
         \<and> db w' = db w
         \<and> (calls w' = calls w \<or> calls w' = calls w @ [Call_GetTrip id'])))
   \<and> (\<forall>id' body trip arg activityId s1.
      Decode r = (body, None)
      \<and> uuid_Parse x tripID = (id', None)
      \<and> GetTrip (API_store api) (db w) id' = Inr trip
      \<and> Struct_CreateActivityRequest (API_validator api) body = None
      \<and> arg = \<lparr>CreateActivityParams_TripID = id',
                CreateActivityParams_Title = CreateActivityRequest_Title body,
                CreateActivityParams_OccursAt =
                  \<lparr>Timestamp_Time = CreateActivityRequest_OccursAt body,
                   Timestamp_InfinityModifier = Finite, Timestamp_Valid = True\<rparr>\<rparr>
      \<and> CreateActivity (API_store api) (db w) arg = (Inr activityId, s1) \<longrightarrow>
      PostTripsTripIDActivities x api r tripID w =
        (Some \<lparr>Response_body = Body_CreateActivityResponse
                 \<lparr>CreateActivityResponse_ActivityID = uuid_String x activityId\<rparr>,
               Response_Code = 201, Response_contentType = ''application/json''\<rparr>,
         w\<lparr>db := s1, calls := calls w @ [Call_GetTrip id', Call_CreateActivity arg]\<rparr>))"
  by (auto simp: PostTripsTripIDActivities_def store_GetTrip_def store_CreateActivity_def
      response_defs split: prod.splits option.splits sum.splits)

text \<open>
  On the in-memory storage: a dinner for a trip that does not exist, and for the trip to
  Lisbon.
\<close>

theorem PostTripsTripIDActivities_requires_trip_witness:
  "PostTripsTripIDActivities canonical_env mem_API dinner_request
       ''00000000-0000-0000-0000-0000000000ff'' (world0 example_db) =
     (Some \<lparr>Response_body = Body_Error \<lparr>Error_Message = ''Somethind went wrong with this trip''\<rparr>,
            Response_Code = 400, Response_contentType = ''application/json''\<rparr>,
      (world0 example_db)\<lparr>calls := [Call_GetTrip 0xff]\<rparr>)
   \<and> PostTripsTripIDActivities canonical_env mem_API dinner_request
       ''9f1c2d3e-4a5b-46c7-8d9e-0f1a2b3c4d5e'' (world0 example_db) =
     (Some \<lparr>Response_body = Body_CreateActivityResponse
              \<lparr>CreateActivityResponse_ActivityID = ''00000000-0000-0000-0000-0000000000b0''\<rparr>,
            Response_Code = 201, Response_contentType = ''application/json''\<rparr>,
      (world0 example_db)
        \<lparr>db := example_db
           \<lparr>mem_activities := [breakfast, museum, tram,
              \<lparr>Activity_ID = 0xb0, Activity_TripID = lisbon_id, Activity_Title = ''Dinner'',
               Activity_OccursAt = timestamp (Date 2024 1 3 20 0)\<rparr>],
            mem_next := 0xb1\<rparr>,
         calls := [Call_GetTrip lisbon_id,
                   Call_CreateActivity
                     \<lparr>CreateActivityParams_TripID = lisbon_id,
                      CreateActivityParams_Title = ''Dinner'',
                      CreateActivityParams_OccursAt = timestamp (Date 2024 1 3 20 0)\<rparr>]\<rparr>)"
proof -
  note inst = PostTripsTripIDActivities_requires_trip
    [where x = canonical_env and api = mem_API and r = dinner_request and w = "world0 example_db"]
  have missing: "GetTrip (API_store mem_API) (db (world0 example_db)) 0xff = Inl ErrNoRows"
    using GetTrip_unknown by (simp add: world0_def)
  from inst [where tripID = "''00000000-0000-0000-0000-0000000000ff''", THEN conjunct1,
             rule_format, OF conjI, OF Parse_unknown missing]
  obtain resp w' where
    res: "PostTripsTripIDActivities canonical_env mem_API dinner_request
            ''00000000-0000-0000-0000-0000000000ff'' (world0 example_db) = (Some resp, w')"
    and "Response_Code resp = 400" and "db w' = db (world0 example_db)"
    by blast
  have a: "PostTripsTripIDActivities canonical_env mem_API dinner_request
       ''00000000-0000-0000-0000-0000000000ff'' (world0 example_db) =
     (Some \<lparr>Response_body = Body_Error \<lparr>Error_Message = ''Somethind went wrong with this trip''\<rparr>,
            Response_Code = 400, Response_contentType = ''application/json''\<rparr>,
      (world0 example_db)\<lparr>calls := [Call_GetTrip 0xff]\<rparr>)"
    using res missing
    by (simp add: PostTripsTripIDActivities_def dinner_request_def Parse_unknown
        store_GetTrip_def response_defs) (simp add: world0_def)
  have dec: "Decode dinner_request =
               (\<lparr>CreateActivityRequest_OccursAt = Date 2024 1 3 20 0,
                 CreateActivityRequest_Title = ''Dinner''\<rparr>, None)"
    by (simp add: dinner_request_def)
  have found: "GetTrip (API_store mem_API) (db (world0 example_db)) lisbon_id = Inr lisbon"
    using GetTrip_lisbon by (simp add: world0_def)
  have valid: "Struct_CreateActivityRequest (API_validator mem_API)
                 \<lparr>CreateActivityRequest_OccursAt = Date 2024 1 3 20 0,
                  CreateActivityRequest_Title = ''Dinner''\<rparr> = None"
    by (simp add: mem_defs)
  have created: "CreateActivity (API_store mem_API) (db (world0 example_db))
                   \<lparr>CreateActivityParams_TripID = lisbon_id,
                    CreateActivityParams_Title = ''Dinner'',
                    CreateActivityParams_OccursAt = timestamp (Date 2024 1 3 20 0)\<rparr> =
                 (Inr 0xb0,
                  example_db
                    \<lparr>mem_activities := [breakfast, museum, tram,
                       \<lparr>Activity_ID = 0xb0, Activity_TripID = lisbon_id, Activity_Title = ''Dinner'',
                        Activity_OccursAt = timestamp (Date 2024 1 3 20 0)\<rparr>],
                     mem_next := 0xb1\<rparr>)"
    by (simp add: mem_defs example_db_def lisbon_def)
  have b: "PostTripsTripIDActivities canonical_env mem_API dinner_request
       ''9f1c2d3e-4a5b-46c7-8d9e-0f1a2b3c4d5e'' (world0 example_db) =
     (Some \<lparr>Response_body = Body_CreateActivityResponse
              \<lparr>CreateActivityResponse_ActivityID = ''00000000-0000-0000-0000-0000000000b0''\<rparr>,
            Response_Code = 201, Response_contentType = ''application/json''\<rparr>,
      (world0 example_db)
        \<lparr>db := example_db
           \<lparr>mem_activities := [breakfast, museum, tram,
              \<lparr>Activity_ID = 0xb0, Activity_TripID = lisbon_id, Activity_Title = ''Dinner'',
               Activity_OccursAt = timestamp (Date 2024 1 3 20 0)\<rparr>],
            mem_next := 0xb1\<rparr>,
         calls := [Call_GetTrip lisbon_id,
                   Call_CreateActivity
                     \<lparr>CreateActivityParams_TripID = lisbon_id,
                      CreateActivityParams_Title = ''Dinner'',
                      CreateActivityParams_OccursAt = timestamp (Date 2024 1 3 20 0)\<rparr>]\<rparr>)"
    using inst [where tripID = "''9f1c2d3e-4a5b-46c7-8d9e-0f1a2b3c4d5e''", THEN conjunct2, rule_format,
                of _ lisbon_id _ _ "0xb0",
                OF conjI [OF dec conjI [OF Parse_lisbon conjI [OF found conjI [OF valid conjI [OF refl]]]]]]
          created
    by (simp add: String_b0 timestamp_def world0_def)
  show ?thesis using a b by blast
qed

section \<open>POST /trips: the response does not wait for the mailer\<close>

text \<open>
  Claim C7. Whenever the body decodes and passes validation and \<open>CreateTrip\<close> succeeds,
  \<open>PostTrips\<close> returns 201 with the generated trip identifier, whatever the mailer is: the
  handler starts the goroutine that calls the mailer and returns. Running that goroutine
  changes neither the storage nor the calls made on it (a failure of the mailer adds an
  entry to the log). When decoding, validation or \<open>CreateTrip\<close> fails, the handler returns
  400 with a message.
\<close>

theorem PostTrips_response_ignores_mailer:
  "(\<forall>body tripID s1.
      Decode r = (body, None)
      \<and> Struct_CreateTripRequest (API_validator api) body = None
      \<and> CreateTrip (API_store api) (db w) body = (Inr tripID, s1) \<longrightarrow>
      (\<forall>m. PostTrips x (api\<lparr>API_mailer := m\<rparr>) r w =
             (Some \<lparr>Response_body = Body_CreateTripResponse
                      \<lparr>CreateTripResponse_TripID = uuid_String x tripID\<rparr>,
                    Response_Code = 201, Response_contentType = ''application/json''\<rparr>,
              w\<lparr>db := s1, calls := calls w @ [Call_CreateTrip body],
                goroutines := goroutines w @ [tripID]\<rparr>)))
   \<and> (\<forall>m w1. db (run_goroutine x (api\<lparr>API_mailer := m\<rparr>) w1) = db w1
              \<and> calls (run_goroutine x (api\<lparr>API_mailer := m\<rparr>) w1) = calls w1)
   \<and> (\<forall>body err.
      Decode r = (body, Some err) \<longrightarrow>
      PostTrips x api r w =
        (Some \<lparr>Response_body = Body_Error \<lparr>Error_Message = ''Invalid JSON: '' @ Error err\<rparr>,
               Response_Code = 400, Response_contentType = ''application/json''\<rparr>, w))
   \<and> (\<forall>body err.
      Decode r = (body, None)
      \<and> Struct_CreateTripRequest (API_validator api) body = Some err \<longrightarrow>
      PostTrips x api r w =
        (Some \<lparr>Response_body = Body_Error \<lparr>Error_Message = ''invalid input: '' @ Error err\<rparr>,
               Response_Code = 400, Response_contentType = ''application/json''\<rparr>, w))
   \<and> (\<forall>body err s1.
      Decode r = (body, None)
      \<and> Struct_CreateTripRequest (API_validator api) body = None
      \<and> CreateTrip (API_store api) (db w) body = (Inl err, s1) \<longrightarrow>
      PostTrips x api r w =
        (Some \<lparr>Response_body = Body_Error \<lparr>Error_Message = ''failed to create trip, try again''\<rparr>,
               Response_Code = 400, Response_contentType = ''application/json''\<rparr>,
         w\<lparr>db := s1, calls := calls w @ [Call_CreateTrip body]\<rparr>))"
  by (auto simp: PostTrips_def store_CreateTrip_def response_defs run_goroutine_def
      PostTrips_func1_def logger_Error_def split: list.splits option.splits)

text \<open>
  On the in-memory storage: a trip to Madrid, with \<open>MailPit\<close> over a mail endpoint that
  refuses the connection and over one that accepts the message; then a body that does not decode, a body without destination, and a storage
  that refuses to create the trip.
\<close>

theorem PostTrips_response_ignores_mailer_witness:
  "(\<exists>w1. PostTrips canonical_env mem_API madrid_request (world0 example_db) =
            (Some \<lparr>Response_body = Body_CreateTripResponse
                     \<lparr>CreateTripResponse_TripID = ''00000000-0000-0000-0000-0000000000b0''\<rparr>,
                   Response_Code = 201, Response_contentType = ''application/json''\<rparr>, w1)
          \<and> PostTrips canonical_env (mem_API\<lparr>API_mailer := silent_mailer\<rparr>) madrid_request
              (world0 example_db) =
            (Some \<lparr>Response_body = Body_CreateTripResponse
                     \<lparr>CreateTripResponse_TripID = ''00000000-0000-0000-0000-0000000000b0''\<rparr>,
                   Response_Code = 201, Response_contentType = ''application/json''\<rparr>, w1)
          \<and> goroutines w1 = [0xb0]
          \<and> length (logged (run_goroutine canonical_env mem_API w1)) = 1
          \<and> logged (run_goroutine canonical_env (mem_API\<lparr>API_mailer := silent_mailer\<rparr>) w1) = []
          \<and> db (run_goroutine canonical_env mem_API w1) = db w1)
   \<and> fst (PostTrips canonical_env mem_API
            \<lparr>Decode = (fst (Decode madrid_request), Some (New ''unexpected EOF''))\<rparr>
            (world0 example_db)) =
       Some \<lparr>Response_body = Body_Error \<lparr>Error_Message = ''Invalid JSON: unexpected EOF''\<rparr>,
             Response_Code = 400, Response_contentType = ''application/json''\<rparr>
   \<and> fst (PostTrips canonical_env mem_API
            \<lparr>Decode = ((fst (Decode madrid_request))\<lparr>CreateTripRequest_Destination := []\<rparr>, None)\<rparr>
            (world0 example_db)) =
       Some \<lparr>Response_body = Body_Error
               \<lparr>Error_Message = ''invalid input: failed on the required tag''\<rparr>,
             Response_Code = 400, Response_contentType = ''application/json''\<rparr>
   \<and> fst (PostTrips canonical_env (mem_API\<lparr>API_store := broken_store\<rparr>) madrid_request
            (world0 example_db)) =
       Some \<lparr>Response_body = Body_Error \<lparr>Error_Message = ''failed to create trip, try again''\<rparr>,
             Response_Code = 400, Response_contentType = ''application/json''\<rparr>"
proof -
  let ?body = "fst (Decode madrid_request)"
  let ?s1 = "snd (CreateTrip (API_store mem_API) (db (world0 example_db)) ?body)"
  let ?w1 = "(world0 example_db)
               \<lparr>db := ?s1, calls := calls (world0 example_db) @ [Call_CreateTrip ?body],
                goroutines := goroutines (world0 example_db) @ [0xb0]\<rparr>"
  have dec: "Decode madrid_request = (?body, None)"
    by (simp add: madrid_request_def)
  have valid: "Struct_CreateTripRequest (API_validator mem_API) ?body = None"
    by (simp add: mem_defs madrid_request_def)
  have created: "CreateTrip (API_store mem_API) (db (world0 example_db)) ?body = (Inr 0xb0, ?s1)"
    by (simp add: mem_defs example_db_def Let_def)
  note ok = PostTrips_response_ignores_mailer
    [where x = canonical_env and api = mem_API and w = "world0 example_db",
     THEN conjunct1, rule_format, OF conjI [OF dec conjI [OF valid created]]]
  have same_api: "mem_API\<lparr>API_mailer := failing_mailer\<rparr> = mem_API"
    by (simp add: mem_API_def)
  have first: "PostTrips canonical_env mem_API madrid_request (world0 example_db) =
            (Some \<lparr>Response_body = Body_CreateTripResponse
                     \<lparr>CreateTripResponse_TripID = ''00000000-0000-0000-0000-0000000000b0''\<rparr>,
                   Response_Code = 201, Response_contentType = ''application/json''\<rparr>, ?w1)"
    using ok [of failing_mailer] by (simp add: same_api String_b0)
  have second: "PostTrips canonical_env (mem_API\<lparr>API_mailer := silent_mailer\<rparr>) madrid_request
              (world0 example_db) =
            (Some \<lparr>Response_body = Body_CreateTripResponse
                     \<lparr>CreateTripResponse_TripID = ''00000000-0000-0000-0000-0000000000b0''\<rparr>,
                   Response_Code = 201, Response_contentType = ''application/json''\<rparr>, ?w1)"
    using ok [of silent_mailer] by (simp add: String_b0)
  have pending: "goroutines ?w1 = [0xb0]"
    by (simp add: world0_def)
  have logs: "length (logged (run_goroutine canonical_env mem_API ?w1)) = 1"
    "logged (run_goroutine canonical_env (mem_API\<lparr>API_mailer := silent_mailer\<rparr>) ?w1) = []"
    by (simp_all add: run_goroutine_def PostTrips_func1_def logger_Error_def world0_def
        mem_defs mailer_defs madrid_request_def example_db_def lisbon_def lisbon_id_def Let_def)
  have same_db: "db (run_goroutine canonical_env mem_API ?w1) = db ?w1"
    using PostTrips_response_ignores_mailer
      [where x = canonical_env and api = mem_API, THEN conjunct2, THEN conjunct1,
       rule_format, of failing_mailer ?w1]
    by (simp add: same_api)
  have bad_json: "fst (PostTrips canonical_env mem_API
            \<lparr>Decode = (?body, Some (New ''unexpected EOF''))\<rparr> (world0 example_db)) =
       Some \<lparr>Response_body = Body_Error \<lparr>Error_Message = ''Invalid JSON: unexpected EOF''\<rparr>,
             Response_Code = 400, Response_contentType = ''application/json''\<rparr>"
    using PostTrips_response_ignores_mailer
      [where x = canonical_env and api = mem_API and w = "world0 example_db"
         and r = "\<lparr>Decode = (?body, Some (New ''unexpected EOF''))\<rparr>",
       THEN conjunct2, THEN conjunct2, THEN conjunct1, rule_format, of ?body "New ''unexpected EOF''"]
    by simp
  have invalid: "fst (PostTrips canonical_env mem_API
            \<lparr>Decode = (?body\<lparr>CreateTripRequest_Destination := []\<rparr>, None)\<rparr> (world0 example_db)) =
       Some \<lparr>Response_body = Body_Error
               \<lparr>Error_Message = ''invalid input: failed on the required tag''\<rparr>,
             Response_Code = 400, Response_contentType = ''application/json''\<rparr>"
    using PostTrips_response_ignores_mailer
      [where x = canonical_env and api = mem_API and w = "world0 example_db"
         and r = "\<lparr>Decode = (?body\<lparr>CreateTripRequest_Destination := []\<rparr>, None)\<rparr>",
       THEN conjunct2, THEN conjunct2, THEN conjunct2, THEN conjunct1, rule_format,
       of "?body\<lparr>CreateTripRequest_Destination := []\<rparr>" "New ''failed on the required tag''"]
    by (simp add: mem_defs)
  have refused: "fst (PostTrips canonical_env (mem_API\<lparr>API_store := broken_store\<rparr>) madrid_request
            (world0 example_db)) =
       Some \<lparr>Response_body = Body_Error \<lparr>Error_Message = ''failed to create trip, try again''\<rparr>,
             Response_Code = 400, Response_contentType = ''application/json''\<rparr>"
    using PostTrips_response_ignores_mailer
      [where x = canonical_env and api = "mem_API\<lparr>API_store := broken_store\<rparr>"
         and w = "world0 example_db" and r = madrid_request,
       THEN conjunct2, THEN conjunct2, THEN conjunct2, THEN conjunct2, rule_format,
       of ?body "New ''connection refused''" "db (world0 example_db)"]
      dec
    by (simp add: mem_API_def required_validator_def required_def broken_store_def madrid_request_def)
  show ?thesis
    using first second pending logs same_db bad_json invalid refused by blast
qed

section \<open>GET /trips/{tripId}/participants: no names\<close>

text \<open>
  Claim C8. \<open>GetTripsTripIDParticipants\<close> returns, for the participants that the storage
  gateway returns for the trip, one element each, in the same order, with the email, the
  identifier and the confirmation flag of the participant, and with no name. The name of
  every element of every response is \<open>nil\<close>, whatever name is stored.
\<close>

theorem GetTripsTripIDParticipants_name_always_nil:
  "(\<forall>id' participants.
      uuid_Parse x tripID = (id', None)
      \<and> GetParticipants (API_store api) (db w) id' = Inr participants \<longrightarrow>
      (\<exists>out. GetTripsTripIDParticipants x api tripID w =
           (Some \<lparr>Response_body = Body_GetTripParticipantsResponse
                    \<lparr>GetTripParticipantsResponse_Participants = out\<rparr>,
                  Response_Code = 200, Response_contentType = ''application/json''\<rparr>,
            w\<lparr>calls := calls w @ [Call_GetParticipants id']\<rparr>)
         \<and> length out = length participants
         \<and> (\<forall>i < length participants.
               GetTripParticipantsResponseArray_Email (out ! i) = Participant_Email (participants ! i)
             \<and> GetTripParticipantsResponseArray_ID (out ! i) =
                 uuid_String x (Participant_ID (participants ! i))
             \<and> GetTripParticipantsResponseArray_IsConfirmed (out ! i) =
                 Participant_IsConfirmed (participants ! i)
             \<and> GetTripParticipantsResponseArray_Name (out ! i) = None)))
   \<and> (\<forall>resp out.
      fst (GetTripsTripIDParticipants x api tripID w) = Some resp
      \<and> Response_body resp =
          Body_GetTripParticipantsResponse \<lparr>GetTripParticipantsResponse_Participants = out\<rparr> \<longrightarrow>
      list_all (\<lambda>e. GetTripParticipantsResponseArray_Name e = None) out)"
  by (auto simp: GetTripsTripIDParticipants_def store_GetParticipants_def response_defs list_all_iff
      split: prod.splits option.splits sum.splits)

text \<open>
The invited participant of the trip to Lisbon has a stored name; the response has none.
\<close>

theorem GetTripsTripIDParticipants_name_always_nil_witness:
  "Participant_Name guest = Some ''Rui''
   \<and> GetParticipants (API_store mem_API) (db (world0 example_db)) lisbon_id = Inr [guest]
   \<and> GetTripsTripIDParticipants canonical_env mem_API ''9f1c2d3e-4a5b-46c7-8d9e-0f1a2b3c4d5e''
         (world0 example_db) =
       (Some \<lparr>Response_body = Body_GetTripParticipantsResponse
                \<lparr>GetTripParticipantsResponse_Participants =
                   [\<lparr>GetTripParticipantsResponseArray_Email = ''rui@example.com'',
                     GetTripParticipantsResponseArray_ID = ''2b7e1516-28ae-d2a6-abf7-158809cf4f3c'',
                     GetTripParticipantsResponseArray_IsConfirmed = False,
                     GetTripParticipantsResponseArray_Name = None\<rparr>]\<rparr>,
              Response_Code = 200, Response_contentType = ''application/json''\<rparr>,
        (world0 example_db)\<lparr>calls := [Call_GetParticipants lisbon_id]\<rparr>)
   \<and> list_all (\<lambda>e. GetTripParticipantsResponseArray_Name e = None)
        [\<lparr>GetTripParticipantsResponseArray_Email = ''rui@example.com'',
          GetTripParticipantsResponseArray_ID = ''2b7e1516-28ae-d2a6-abf7-158809cf4f3c'',
          GetTripParticipantsResponseArray_IsConfirmed = False,
          GetTripParticipantsResponseArray_Name = None\<rparr>]"
proof -
  note inst = GetTripsTripIDParticipants_name_always_nil
    [where x = canonical_env and api = mem_API and w = "world0 example_db"
       and tripID = "''9f1c2d3e-4a5b-46c7-8d9e-0f1a2b3c4d5e''"]
  from inst [THEN conjunct1, rule_format, OF conjI, OF Parse_lisbon GetParticipants_lisbon]
  obtain out where
    res: "GetTripsTripIDParticipants canonical_env mem_API ''9f1c2d3e-4a5b-46c7-8d9e-0f1a2b3c4d5e''
           (world0 example_db) =
           (Some \<lparr>Response_body = Body_GetTripParticipantsResponse
                    \<lparr>GetTripParticipantsResponse_Participants = out\<rparr>,
                  Response_Code = 200, Response_contentType = ''application/json''\<rparr>,
            (world0 example_db)\<lparr>calls := calls (world0 example_db) @ [Call_GetParticipants lisbon_id]\<rparr>)"
    and len: "length out = length [guest]"
    and el: "\<forall>i < length [guest].
             GetTripParticipantsResponseArray_Email (out ! i) = Participant_Email ([guest] ! i)
           \<and> GetTripParticipantsResponseArray_ID (out ! i) = uuid_String canonical_env (Participant_ID ([guest] ! i))
           \<and> GetTripParticipantsResponseArray_IsConfirmed (out ! i) = Participant_IsConfirmed ([guest] ! i)
           \<and> GetTripParticipantsResponseArray_Name (out ! i) = None"
    by blast
  from len obtain e where out: "out = [e]"
    by (cases out) simp_all
  from el out have e: "e = \<lparr>GetTripParticipantsResponseArray_Email = ''rui@example.com'',
                     GetTripParticipantsResponseArray_ID = ''2b7e1516-28ae-d2a6-abf7-158809cf4f3c'',
                     GetTripParticipantsResponseArray_IsConfirmed = False,
                     GetTripParticipantsResponseArray_Name = None\<rparr>"
    by (cases e) (simp add: guest_def String_guest)
  have a: "GetTripsTripIDParticipants canonical_env mem_API ''9f1c2d3e-4a5b-46c7-8d9e-0f1a2b3c4d5e''
         (world0 example_db) =
       (Some \<lparr>Response_body = Body_GetTripParticipantsResponse
                \<lparr>GetTripParticipantsResponse_Participants =
                   [\<lparr>GetTripParticipantsResponseArray_Email = ''rui@example.com'',
                     GetTripParticipantsResponseArray_ID = ''2b7e1516-28ae-d2a6-abf7-158809cf4f3c'',
                     GetTripParticipantsResponseArray_IsConfirmed = False,
                     GetTripParticipantsResponseArray_Name = None\<rparr>]\<rparr>,
              Response_Code = 200, Response_contentType = ''application/json''\<rparr>,
        (world0 example_db)\<lparr>calls := [Call_GetParticipants lisbon_id]\<rparr>)"
    using res out e by (simp add: world0_def)
  have b: "list_all (\<lambda>e. GetTripParticipantsResponseArray_Name e = None)
        [\<lparr>GetTripParticipantsResponseArray_Email = ''rui@example.com'',
          GetTripParticipantsResponseArray_ID = ''2b7e1516-28ae-d2a6-abf7-158809cf4f3c'',
          GetTripParticipantsResponseArray_IsConfirmed = False,
          GetTripParticipantsResponseArray_Name = None\<rparr>]"
    using inst [THEN conjunct2, rule_format, OF conjI] a by simp
  have c: "Participant_Name guest = Some ''Rui''"
    by (simp add: guest_def)
  show ?thesis using a b c GetParticipants_lisbon by blast
qed

section \<open>GET /trips/{tripId}: the projection, or 400\<close>

text \<open>
  Claim C9. \<open>GetTripsTripID\<close> returns, for a well-formed identifier of a trip that the storage
  finds, status 200 with the stored destination, end and start times and confirmation flag
  (and the identifier); for a malformed identifier, and for an identifier whose lookup
  fails, it returns status 400. Every response has status 200 or 400: there is no 404.
\<close>

theorem GetTripsTripID_projection_or_400:
  "(\<forall>id' trip.
      uuid_Parse x tripID = (id', None) \<and> GetTrip (API_store api) (db w) id' = Inr trip \<longrightarrow>
      GetTripsTripID x api tripID w =
        (Some \<lparr>Response_body = Body_GetTripDetailsResponse
                 \<lparr>GetTripDetailsResponse_Trip =
                    \<lparr>GetTripDetailsResponseTripObj_Destination = Trip_Destination trip,
                     GetTripDetailsResponseTripObj_EndsAt = Timestamp_Time (Trip_EndsAt trip),
                     GetTripDetailsResponseTripObj_ID = uuid_String x (Trip_ID trip),
                     GetTripDetailsResponseTripObj_IsConfirmed = Trip_IsConfirmed trip,
                     GetTripDetailsResponseTripObj_StartsAt = Timestamp_Time (Trip_StartsAt trip)\<rparr>\<rparr>,
               Response_Code = 200, Response_contentType = ''application/json''\<rparr>,
         w\<lparr>calls := calls w @ [Call_GetTrip id']\<rparr>))
   \<and> (\<forall>id' err.
      uuid_Parse x tripID = (id', Some err) \<longrightarrow>
      GetTripsTripID x api tripID w =
        (Some \<lparr>Response_body = Body_Error \<lparr>Error_Message = ''uuid invalido''\<rparr>,
               Response_Code = 400, Response_contentType = ''application/json''\<rparr>, w))
   \<and> (\<forall>id' err.
      uuid_Parse x tripID = (id', None) \<and> GetTrip (API_store api) (db w) id' = Inl err \<longrightarrow>
      GetTripsTripID x api tripID w =
        (Some \<lparr>Response_body = Body_Error \<lparr>Error_Message = ''This trip dont exists, try again''\<rparr>,
               Response_Code = 400, Response_contentType = ''application/json''\<rparr>,
         w\<lparr>calls := calls w @ [Call_GetTrip id']\<rparr>))
   \<and> (\<exists>resp. fst (GetTripsTripID x api tripID w) = Some resp
          \<and> (Response_Code resp = 200 \<or> Response_Code resp = 400))"
  by (auto simp: GetTripsTripID_def store_GetTrip_def response_defs split: prod.splits option.splits sum.splits)

text \<open>
  The three cases on the in-memory storage: the trip to Lisbon, the string \<open>not-a-uuid\<close>,
  and a well-formed identifier of no trip.
\<close>

theorem GetTripsTripID_projection_or_400_witness:
  "GetTripsTripID canonical_env mem_API ''9f1c2d3e-4a5b-46c7-8d9e-0f1a2b3c4d5e'' (world0 example_db) =
     (Some \<lparr>Response_body = Body_GetTripDetailsResponse
              \<lparr>GetTripDetailsResponse_Trip =
                 \<lparr>GetTripDetailsResponseTripObj_Destination = ''Lisbon'',
                  GetTripDetailsResponseTripObj_EndsAt = Date 2024 1 7 0 0,
                  GetTripDetailsResponseTripObj_ID = ''9f1c2d3e-4a5b-46c7-8d9e-0f1a2b3c4d5e'',
                  GetTripDetailsResponseTripObj_IsConfirmed = False,
                  GetTripDetailsResponseTripObj_StartsAt = Date 2024 1 1 0 0\<rparr>\<rparr>,
            Response_Code = 200, Response_contentType = ''application/json''\<rparr>,
      (world0 example_db)\<lparr>calls := [Call_GetTrip lisbon_id]\<rparr>)
   \<and> GetTripsTripID canonical_env mem_API ''not-a-uuid'' (world0 example_db) =
     (Some \<lparr>Response_body = Body_Error \<lparr>Error_Message = ''uuid invalido''\<rparr>,
            Response_Code = 400, Response_contentType = ''application/json''\<rparr>, world0 example_db)
   \<and> GetTripsTripID canonical_env mem_API ''00000000-0000-0000-0000-0000000000ff'' (world0 example_db) =
     (Some \<lparr>Response_body = Body_Error \<lparr>Error_Message = ''This trip dont exists, try again''\<rparr>,
            Response_Code = 400, Response_contentType = ''application/json''\<rparr>,
      (world0 example_db)\<lparr>calls := [Call_GetTrip 0xff]\<rparr>)"
proof -
  have db0: "db (world0 example_db) = example_db" "calls (world0 example_db) = []"
    by (simp_all add: world0_def)
  have found: "GetTrip (API_store mem_API) (db (world0 example_db)) lisbon_id = Inr lisbon"
    using GetTrip_lisbon by (simp add: db0)
  have missing: "GetTrip (API_store mem_API) (db (world0 example_db)) 0xff = Inl ErrNoRows"
    using GetTrip_unknown by (simp add: db0)
  note inst = GetTripsTripID_projection_or_400 [where x = canonical_env and api = mem_API]
  have a: "GetTripsTripID canonical_env mem_API ''9f1c2d3e-4a5b-46c7-8d9e-0f1a2b3c4d5e'' (world0 example_db) =
     (Some \<lparr>Response_body = Body_GetTripDetailsResponse
              \<lparr>GetTripDetailsResponse_Trip =
                 \<lparr>GetTripDetailsResponseTripObj_Destination = ''Lisbon'',
                  GetTripDetailsResponseTripObj_EndsAt = Date 2024 1 7 0 0,
                  GetTripDetailsResponseTripObj_ID = ''9f1c2d3e-4a5b-46c7-8d9e-0f1a2b3c4d5e'',
                  GetTripDetailsResponseTripObj_IsConfirmed = False,
                  GetTripDetailsResponseTripObj_StartsAt = Date 2024 1 1 0 0\<rparr>\<rparr>,
            Response_Code = 200, Response_contentType = ''application/json''\<rparr>,
      (world0 example_db)\<lparr>calls := [Call_GetTrip lisbon_id]\<rparr>)"
    using inst [THEN conjunct1, rule_format, OF conjI, OF Parse_lisbon found]
    by (simp add: db0 String_lisbon lisbon_def timestamp_def)
  have b: "GetTripsTripID canonical_env mem_API ''not-a-uuid'' (world0 example_db) =
     (Some \<lparr>Response_body = Body_Error \<lparr>Error_Message = ''uuid invalido''\<rparr>,
            Response_Code = 400, Response_contentType = ''application/json''\<rparr>, world0 example_db)"
    using inst [THEN conjunct2, THEN conjunct1, rule_format, OF Parse_malformed] .
  have c: "GetTripsTripID canonical_env mem_API ''00000000-0000-0000-0000-0000000000ff'' (world0 example_db) =
     (Some \<lparr>Response_body = Body_Error \<lparr>Error_Message = ''This trip dont exists, try again''\<rparr>,
            Response_Code = 400, Response_contentType = ''application/json''\<rparr>,
      (world0 example_db)\<lparr>calls := [Call_GetTrip 0xff]\<rparr>)"
    using inst [THEN conjunct2, THEN conjunct2, THEN conjunct1, rule_format, OF conjI, OF Parse_unknown missing]
    by (simp add: db0)
  show ?thesis using a b c by blast
qed

end
